theory Spec2Isabelle
  imports Complex_Main
begin

section \<open>Sexagenary tables\<close>

text \<open>
  The analyzer (\<^verbatim>\<open>server/services/yijingAnalyzer.cjs\<close>, class \<^verbatim>\<open>BaziAnalyzer\<close>) works on
  one-character strings.  The five elements, the ten stems and the twelve branches are
  modelled as datatypes; the constructors are the pinyin (or English) names of the
  characters:
  \<^item> elements: Wood (mu), Fire (huo), Earth (tu), Metal (jin), Water (shui);
  \<^item> stems, in cycle order: Jia, Yi, Bing, Ding, Wu, Ji, Geng, Xin, Ren, Gui;
  \<^item> branches, in cycle order: Zi, Chou, Yin, Mao, Chen, Si, Wu, Wei, Shen, You, Xu, Hai
    (the branch Wu is written \<open>WuB\<close>, the stem Wu \<open>WuS\<close>).
\<close>

datatype element = Wood | Fire | Earth | Metal | Water

datatype stem = Jia | Yi | Bing | Ding | WuS | Ji | Geng | Xin | Ren | Gui

datatype branch = Zi | Chou | Yin | Mao | Chen | Si | WuB | Wei | Shen | You | Xu | Hai

datatype yinYang = YangP | YinP

text \<open>
  The result strings of \<^verbatim>\<open>getElementRelation\<close>; \<open>neutral\<close> is its last return.
\<close>

datatype relation = same | generate | overcome | beGenerated | beOvercome | neutral

text \<open>
  The ten labels of \<^verbatim>\<open>calculateTenGod\<close> and its fallback \<open>WeiZhi\<close> ("unknown"):
  BiJian (parallel), JieCai (rob-wealth), ShiShen, ShangGuan, PianCai, ZhengCai, QiSha,
  ZhengGuan, PianYin, ZhengYin.
\<close>

datatype tenGod =
  BiJian | JieCai | ShiShen | ShangGuan | PianCai | ZhengCai | QiSha | ZhengGuan
  | PianYin | ZhengYin | WeiZhi

subsection \<open>Stems: element and polarity\<close>

text \<open>The object literal \<^verbatim>\<open>stemElements\<close> of \<^verbatim>\<open>getElementFromStem\<close>.\<close>

fun stemElements :: "stem \<Rightarrow> element option" where
  "stemElements Jia = Some Wood"
| "stemElements Yi = Some Wood"
| "stemElements Bing = Some Fire"
| "stemElements Ding = Some Fire"
| "stemElements WuS = Some Earth"
| "stemElements Ji = Some Earth"
| "stemElements Geng = Some Metal"
| "stemElements Xin = Some Metal"
| "stemElements Ren = Some Water"
| "stemElements Gui = Some Water"

text \<open>\<^verbatim>\<open>return stemElements[stem] || 'tu'\<close>: a missing key falls back to Earth.\<close>

definition getElementFromStem :: "stem \<Rightarrow> element" where
  "getElementFromStem s = (case stemElements s of Some e \<Rightarrow> e | None \<Rightarrow> Earth)"

definition yangStems :: "stem list" where
  "yangStems = [Jia, Bing, WuS, Geng, Ren]"

definition getStemYinYang :: "stem \<Rightarrow> yinYang" where
  "getStemYinYang s = (if s \<in> set yangStems then YangP else YinP)"

subsection \<open>The five-element relation\<close>

text \<open>
  The two cycle tables local to \<^verbatim>\<open>getElementRelation\<close>.  Both object literals have
  all five keys, so they are total on \<^typ>\<open>element\<close>.
\<close>

fun generateCycle :: "element \<Rightarrow> element" where
  "generateCycle Wood = Fire"
| "generateCycle Fire = Earth"
| "generateCycle Earth = Metal"
| "generateCycle Metal = Water"
| "generateCycle Water = Wood"

fun overcomeCycle :: "element \<Rightarrow> element" where
  "overcomeCycle Wood = Earth"
| "overcomeCycle Fire = Metal"
| "overcomeCycle Earth = Water"
| "overcomeCycle Metal = Wood"
| "overcomeCycle Water = Fire"

text \<open>
  \<^verbatim>\<open>getElementRelation(element1, element2)\<close>: the relation is read from the side of
  \<open>element1\<close>; the tests come in the order of the source.
\<close>

definition getElementRelation :: "element \<Rightarrow> element \<Rightarrow> relation" where
  "getElementRelation element1 element2 =
     (if element1 = element2 then same
      else if generateCycle element1 = element2 then generate
      else if overcomeCycle element1 = element2 then overcome
      else if generateCycle element2 = element1 then beGenerated
      else if overcomeCycle element2 = element1 then beOvercome
      else neutral)"

section \<open>Ten-God relation\<close>

text \<open>
  \<^verbatim>\<open>calculateTenGod(dayMaster, targetStem)\<close>: identical stems return at once; otherwise
  the relation of the day master's element to the target's element and the equality of
  the two polarities pick the label.
\<close>

definition calculateTenGod :: "stem \<Rightarrow> stem \<Rightarrow> tenGod" where
  "calculateTenGod dayMaster targetStem =
     (if dayMaster = targetStem then BiJian
      else
        let dayElement = getElementFromStem dayMaster;
            targetElement = getElementFromStem targetStem;
            relation = getElementRelation dayElement targetElement;
            dayYinYang = getStemYinYang dayMaster;
            targetYinYang = getStemYinYang targetStem;
            sameYinYang = (dayYinYang = targetYinYang)
        in (case relation of
              same \<Rightarrow> if sameYinYang then BiJian else JieCai
            | generate \<Rightarrow> if sameYinYang then ShiShen else ShangGuan
            | overcome \<Rightarrow> if sameYinYang then PianCai else ZhengCai
            | beOvercome \<Rightarrow> if sameYinYang then QiSha else ZhengGuan
            | beGenerated \<Rightarrow> if sameYinYang then PianYin else ZhengYin
            | neutral \<Rightarrow> WeiZhi))"

section \<open>JavaScript numbers\<close>

text \<open>
  A JavaScript number is a binary double.  A finite double is modelled by the rational
  it denotes, and every literal, product and sum is rounded to the nearest number with
  53 significant bits, ties to the even significand, as the runtime does.  The range of
  the exponent (overflow, subnormal numbers) is not modelled: the scores are a few units
  in size.
\<close>

definition pow2 :: "int \<Rightarrow> rat" where
  "pow2 e = (if 0 \<le> e then 2 ^ nat e else 1 / 2 ^ nat (- e))"

text \<open>The number of binary digits of a positive integer.\<close>

function bitLength :: "int \<Rightarrow> int" where
  "bitLength n = (if n \<le> 0 then 0 else bitLength (n div 2) + 1)"
  by auto
termination
  by (relation "measure nat") auto

declare bitLength.simps [simp del]

text \<open>
  The exponent \<open>e\<close> with \<open>2 ^ e \<le> a < 2 ^ (e + 1)\<close>, for a positive rational \<open>a\<close>: the
  difference of the bit lengths of numerator and denominator, or one less.
\<close>

definition binaryExponent :: "rat \<Rightarrow> int" where
  "binaryExponent a =
     (case quotient_of a of (p, d) \<Rightarrow>
        let k = bitLength p - bitLength d
        in if pow2 k \<le> a then k else k - 1)"

definition roundHalfEven :: "rat \<Rightarrow> int" where
  "roundHalfEven m =
     (let f = \<lfloor>m\<rfloor>; r = m - of_int f
      in if r < 1 / 2 then f
         else if r > 1 / 2 then f + 1
         else if even f then f else f + 1)"

definition roundDouble :: "rat \<Rightarrow> rat" where
  "roundDouble q =
     (if q = 0 then 0
      else
        let a = \<bar>q\<bar>;
            ulp = pow2 (binaryExponent a - 52);
            n = roundHalfEven (a / ulp)
        in sgn q * of_int n * ulp)"

text \<open>\<^verbatim>\<open>x + y\<close> and \<^verbatim>\<open>x * y\<close> on doubles.\<close>

definition dadd :: "rat \<Rightarrow> rat \<Rightarrow> rat" where
  "dadd x y = roundDouble (x + y)"

definition dmul :: "rat \<Rightarrow> rat \<Rightarrow> rat" where
  "dmul x y = roundDouble (x * y)"

section \<open>Elemental-strength scorer\<close>

text \<open>
  The chart's pillars are the objects that the pillar functions return (\<open>stem\<close>,
  \<open>branch\<close> and the two indices; the hour pillar has three more fields).  The scores
  are doubles; the integer scores and the halves (\<open>1.5\<close>, \<open>0.5\<close>) are doubles as they
  stand, the literals \<open>0.6\<close> and \<open>0.3\<close> are rounded.
\<close>

record pillar =
  stem :: stem
  branch :: branch
  stemIndex :: int
  branchIndex :: int

text \<open>\<^verbatim>\<open>zishi_type\<close> is "late zi hour", "early zi hour" or \<^verbatim>\<open>null\<close>.\<close>

datatype zishi = LateZiShi | EarlyZiShi

record hourPillar = pillar +
  zishi_type :: "zishi option"
  is_late_zishi :: bool
  is_early_zishi :: bool

text \<open>
  The object \<^verbatim>\<open>{ year, month, day, hour }\<close> that \<^verbatim>\<open>calculatePreciseBazi\<close> passes on.
\<close>

record pillars =
  year :: pillar
  month :: pillar
  day :: pillar
  hour :: hourPillar

datatype position = YearPos | MonthPos | DayPos | HourPos

text \<open>
  \<^verbatim>\<open>Object.entries(pillars)\<close>, in insertion order; of each pillar the loops read only
  \<open>stem\<close> and \<open>branch\<close>.
\<close>

definition entries :: "pillars \<Rightarrow> (position \<times> stem \<times> branch) list" where
  "entries ps =
     [(YearPos, stem (year ps), branch (year ps)),
      (MonthPos, stem (month ps), branch (month ps)),
      (DayPos, stem (day ps), branch (day ps)),
      (HourPos, stem (hour ps), branch (hour ps))]"

text \<open>
  The class \<^verbatim>\<open>BaseData\<close> (\<^verbatim>\<open>./common/BaseData.cjs\<close>) is not among the sources; its three
  lookups that the analyzer calls are parameters of the model.
\<close>

record BaseData =
  getStemByIndex :: "int \<Rightarrow> stem"
  getBranchByIndex :: "int \<Rightarrow> branch"
  getBranchHiddenStems :: "branch \<Rightarrow> stem list"

subsection \<open>Month strength\<close>

text \<open>
  The vocabulary of season-strength labels: Prosperous (wang), Supported (xiang),
  Resting (xiu), Trapped (qiu), Dead (si), Void (jue), Stored (mu), Nascent (sheng),
  Residual (yu qi); \<open>Flat\<close> (ping) is the fallback of \<^verbatim>\<open>getMonthStrength\<close>.
\<close>

datatype monthLabel =
  Prosperous | Supported | Resting | Trapped | Dead | Void | Stored | Nascent | Residual
  | Flat

text \<open>The nested object literal \<^verbatim>\<open>seasonStrength\<close>, keys in the order of the source.\<close>

definition seasonStrength :: "(element \<times> (branch \<times> monthLabel) list) list" where
  "seasonStrength =
     [(Wood, [(Yin, Prosperous), (Mao, Prosperous), (Chen, Residual), (Si, Dead),
              (WuB, Dead), (Wei, Dead), (Shen, Void), (You, Void), (Xu, Stored),
              (Hai, Nascent), (Zi, Nascent), (Chou, Resting)]),
      (Fire, [(Yin, Nascent), (Mao, Nascent), (Chen, Resting), (Si, Prosperous),
              (WuB, Prosperous), (Wei, Residual), (Shen, Dead), (You, Dead), (Xu, Stored),
              (Hai, Void), (Zi, Void), (Chou, Dead)]),
      (Earth, [(Yin, Dead), (Mao, Dead), (Chen, Prosperous), (Si, Supported),
               (WuB, Supported), (Wei, Prosperous), (Shen, Resting), (You, Resting),
               (Xu, Prosperous), (Hai, Dead), (Zi, Dead), (Chou, Prosperous)]),
      (Metal, [(Yin, Void), (Mao, Void), (Chen, Stored), (Si, Dead),
               (WuB, Dead), (Wei, Dead), (Shen, Prosperous), (You, Prosperous),
               (Xu, Residual), (Hai, Nascent), (Zi, Nascent), (Chou, Supported)]),
      (Water, [(Yin, Dead), (Mao, Dead), (Chen, Stored), (Si, Void),
               (WuB, Void), (Wei, Dead), (Shen, Nascent), (You, Nascent), (Xu, Dead),
               (Hai, Prosperous), (Zi, Prosperous), (Chou, Residual)])]"

text \<open>
  \<^verbatim>\<open>seasonStrength[element]?.[monthBranch] || 'ping'\<close>: a missing row or a missing key
  gives the fallback (every label is a non-empty string, so \<^verbatim>\<open>||\<close> fires on
  \<^verbatim>\<open>undefined\<close> only).
\<close>

definition getMonthStrength :: "element \<Rightarrow> branch \<Rightarrow> monthLabel" where
  "getMonthStrength el monthBranch =
     (case map_of seasonStrength el of
        None \<Rightarrow> Flat
      | Some row \<Rightarrow> (case map_of row monthBranch of None \<Rightarrow> Flat | Some l \<Rightarrow> l))"

subsection \<open>Hidden-stem support\<close>

datatype supportLevel = Qiang | Zhong | Ruo | HenRuo

record 'd support =
  sup_total_score :: rat
  sup_details :: "'d list"
  sup_level :: supportLevel

record hiddenDetail =
  hd_branch :: branch
  hd_hidden_stem :: stem
  hd_relation :: relation
  hd_score :: rat

text \<open>The \<^verbatim>\<open>if\<close>/\<^verbatim>\<open>else if\<close> chain on \<open>relation\<close>, starting from \<^verbatim>\<open>score = 0\<close>.\<close>

definition hiddenScore :: "relation \<Rightarrow> rat" where
  "hiddenScore r =
     (if r = same then 3
      else if r = beGenerated then 2
      else if r = generate then - 1
      else if r = overcome then - 2
      else if r = beOvercome then - 3
      else 0)"

text \<open>\<^verbatim>\<open>index === 0 ? 1.0 : index === 1 ? 0.6 : 0.3\<close>\<close>

definition positionMultiplier :: "nat \<Rightarrow> rat" where
  "positionMultiplier index =
     (if index = 0 then 1 else if index = 1 then roundDouble (6 / 10) else roundDouble (3 / 10))"

text \<open>
  One run of the callback of the inner \<^verbatim>\<open>forEach\<close>: the contribution of one hidden
  stem, and the running pair (\<open>supportScore\<close>, \<open>supportDetails\<close>) updated.
\<close>

definition hiddenFinalScore :: "element \<Rightarrow> stem \<Rightarrow> nat \<Rightarrow> rat" where
  "hiddenFinalScore dayElement hiddenStem index =
     (let hiddenElement = getElementFromStem hiddenStem;
          relation = getElementRelation hiddenElement dayElement;
          score = hiddenScore relation
      in dmul score (positionMultiplier index))"

definition hiddenStep ::
  "element \<Rightarrow> branch \<Rightarrow> stem \<Rightarrow> nat \<Rightarrow> rat \<times> hiddenDetail list \<Rightarrow> rat \<times> hiddenDetail list" where
  "hiddenStep dayElement br hiddenStem index acc =
     (let finalScore = hiddenFinalScore dayElement hiddenStem index;
          supportScore = dadd (fst acc) finalScore;
          supportDetails =
            (if \<bar>finalScore\<bar> > 1 / 2
             then snd acc @
               [\<lparr>hd_branch = br, hd_hidden_stem = hiddenStem,
                 hd_relation = getElementRelation (getElementFromStem hiddenStem) dayElement,
                 hd_score = finalScore\<rparr>]
             else snd acc)
      in (supportScore, supportDetails))"

text \<open>\<^verbatim>\<open>hiddenStems.forEach((hiddenStem, index) => ...)\<close>, from index \<open>index\<close> on.\<close>

fun hiddenStemsForEach ::
  "element \<Rightarrow> branch \<Rightarrow> stem list \<Rightarrow> nat \<Rightarrow> rat \<times> hiddenDetail list \<Rightarrow> rat \<times> hiddenDetail list" where
  "hiddenStemsForEach dayElement br [] index acc = acc"
| "hiddenStemsForEach dayElement br (hiddenStem # rest) index acc =
     hiddenStemsForEach dayElement br rest (Suc index) (hiddenStep dayElement br hiddenStem index acc)"

text \<open>\<^verbatim>\<open>Object.values(pillars).forEach(pillar => ...)\<close>\<close>

fun hiddenPillarsForEach ::
  "BaseData \<Rightarrow> element \<Rightarrow> (position \<times> stem \<times> branch) list \<Rightarrow> rat \<times> hiddenDetail list
     \<Rightarrow> rat \<times> hiddenDetail list" where
  "hiddenPillarsForEach bd dayElement [] acc = acc"
| "hiddenPillarsForEach bd dayElement ((pos, st, br) # rest) acc =
     hiddenPillarsForEach bd dayElement rest
       (hiddenStemsForEach dayElement br (getBranchHiddenStems bd br) 0 acc)"

definition analyzeHiddenStemSupport :: "BaseData \<Rightarrow> element \<Rightarrow> pillars \<Rightarrow> hiddenDetail support" where
  "analyzeHiddenStemSupport bd dayElement ps =
     (let r = hiddenPillarsForEach bd dayElement (entries ps) (0, []);
          supportScore = fst r
      in \<lparr>sup_total_score = supportScore,
          sup_details = snd r,
          sup_level = (if supportScore > 3 then Qiang else if supportScore > 0 then Zhong
                       else if supportScore > - 3 then Ruo else HenRuo)\<rparr>)"

subsection \<open>Visible-stem support\<close>

record stemDetail =
  sd_position :: position
  sd_stem :: stem
  sd_relation :: relation
  sd_score :: rat

definition stemScore :: "relation \<Rightarrow> rat" where
  "stemScore r =
     (if r = same then 2
      else if r = beGenerated then 15 / 10
      else if r = generate then - (5 / 10)
      else if r = overcome then - 1
      else if r = beOvercome then - (15 / 10)
      else 0)"

text \<open>
  \<^verbatim>\<open>Object.entries(pillars).forEach(([position, pillar]) => ...)\<close>; the callback returns
  at once for the position \<^verbatim>\<open>'day'\<close>.
\<close>

fun stemPillarsForEach ::
  "element \<Rightarrow> (position \<times> stem \<times> branch) list \<Rightarrow> rat \<times> stemDetail list \<Rightarrow> rat \<times> stemDetail list" where
  "stemPillarsForEach dayElement [] acc = acc"
| "stemPillarsForEach dayElement ((pos, st, br) # rest) acc =
     stemPillarsForEach dayElement rest
       (if pos = DayPos then acc
        else
          let stemElement = getElementFromStem st;
              relation = getElementRelation stemElement dayElement;
              score = stemScore relation
          in (dadd (fst acc) score,
              if \<bar>score\<bar> > 0
              then snd acc @ [\<lparr>sd_position = pos, sd_stem = st, sd_relation = relation,
                                sd_score = score\<rparr>]
              else snd acc))"

definition analyzeStemSupport :: "element \<Rightarrow> pillars \<Rightarrow> stemDetail support" where
  "analyzeStemSupport dayElement ps =
     (let r = stemPillarsForEach dayElement (entries ps) (0, []);
          supportScore = fst r
      in \<lparr>sup_total_score = supportScore,
          sup_details = snd r,
          sup_level = (if supportScore > 2 then Qiang else if supportScore > 0 then Zhong
                       else if supportScore > - 2 then Ruo else HenRuo)\<rparr>)"

subsection \<open>Overall strength and its level\<close>

record overallStrength =
  month_score :: rat
  hidden_score :: rat
  stem_score :: rat
  total_score :: rat

text \<open>The label-to-weight object literal of \<^verbatim>\<open>calculateOverallStrength\<close>.\<close>

definition monthScoreTable :: "(monthLabel \<times> rat) list" where
  "monthScoreTable =
     [(Prosperous, 4), (Supported, 2), (Resting, 0), (Trapped, - 2), (Dead, - 3),
      (Void, - 4), (Stored, - 1), (Nascent, 1), (Residual, 1)]"

text \<open>
  \<^verbatim>\<open>{...}[monthStrength] || 0\<close>: a missing key and the falsy weight \<open>0\<close> both give \<open>0\<close>.
\<close>

definition monthScoreOf :: "monthLabel \<Rightarrow> rat" where
  "monthScoreOf monthStrength =
     (case map_of monthScoreTable monthStrength of
        None \<Rightarrow> 0
      | Some w \<Rightarrow> if w = 0 then 0 else w)"

definition calculateOverallStrength ::
  "monthLabel \<Rightarrow> 'a support \<Rightarrow> 'b support \<Rightarrow> overallStrength" where
  "calculateOverallStrength monthStrength hiddenSupport stemSupport =
     (let monthScore = monthScoreOf monthStrength;
          totalScore =
            dadd (dadd monthScore (sup_total_score hiddenSupport)) (sup_total_score stemSupport)
      in \<lparr>month_score = monthScore,
          hidden_score = sup_total_score hiddenSupport,
          stem_score = sup_total_score stemSupport,
          total_score = totalScore\<rparr>)"

text \<open>
  The five levels: VeryStrong (tai wang), Strong (pian wang), Balanced (zhong he),
  Weak (pian ruo), VeryWeak (tai ruo).
\<close>

datatype strengthLevel = VeryStrong | Strong | Balanced | Weak | VeryWeak

definition getStrengthLevel :: "overallStrength \<Rightarrow> strengthLevel" where
  "getStrengthLevel overall =
     (let score = total_score overall
      in if score \<ge> 6 then VeryStrong
         else if score \<ge> 3 then Strong
         else if score \<ge> - 1 then Balanced
         else if score \<ge> - 4 then Weak
         else VeryWeak)"

section \<open>Use-god inference\<close>

text \<open>
  The four helper tables; each maps an element to a one-element array, and a missing key
  gives the empty array (\<^verbatim>\<open>|| []\<close>).
\<close>

definition restrainMap :: "(element \<times> element list) list" where
  "restrainMap =
     [(Wood, [Metal]), (Fire, [Water]), (Earth, [Wood]), (Metal, [Fire]), (Water, [Earth])]"

definition drainMap :: "(element \<times> element list) list" where
  "drainMap =
     [(Wood, [Fire]), (Fire, [Earth]), (Earth, [Metal]), (Metal, [Water]), (Water, [Wood])]"

definition consumeMap :: "(element \<times> element list) list" where
  "consumeMap =
     [(Wood, [Earth]), (Fire, [Metal]), (Earth, [Water]), (Metal, [Wood]), (Water, [Fire])]"

definition generateMap :: "(element \<times> element list) list" where
  "generateMap =
     [(Wood, [Water]), (Fire, [Wood]), (Earth, [Fire]), (Metal, [Earth]), (Water, [Metal])]"

definition getRestrainElements :: "element \<Rightarrow> element list" where
  "getRestrainElements el = (case map_of restrainMap el of None \<Rightarrow> [] | Some xs \<Rightarrow> xs)"

definition getDrainElements :: "element \<Rightarrow> element list" where
  "getDrainElements el = (case map_of drainMap el of None \<Rightarrow> [] | Some xs \<Rightarrow> xs)"

definition getConsumeElements :: "element \<Rightarrow> element list" where
  "getConsumeElements el = (case map_of consumeMap el of None \<Rightarrow> [] | Some xs \<Rightarrow> xs)"

definition getGenerateElements :: "element \<Rightarrow> element list" where
  "getGenerateElements el = (case map_of generateMap el of None \<Rightarrow> [] | Some xs \<Rightarrow> xs)"

text \<open>
  \<^verbatim>\<open>analyzeUseGod\<close> returns three template strings.  A string is modelled by the sequence
  of its pieces: an interpolated element, the separator of \<^verbatim>\<open>join\<close> (an ideographic
  comma), a parenthesised role tag (GuanSha: officer/killer, ShiShang: output, CaiXing:
  wealth, BiJie: peers, YinXing: resource), an interpolated strength level, or one of the
  fixed pieces of text of the templates.
\<close>

datatype role = GuanSha | ShiShang | CaiXing | BiJie | YinXing

datatype phrase =
  RiZhuPrefix | StrongAdvice | WeakAdvice | BalancedUse | BalancedAvoid | BalancedAdvice

datatype piece = El element | Sep | Tag role | Lvl strengthLevel | Txt phrase

text \<open>\<^verbatim>\<open>xs.join(sep)\<close> on an array of elements.\<close>

fun joinElements :: "element list \<Rightarrow> piece list" where
  "joinElements [] = []"
| "joinElements [x] = [El x]"
| "joinElements (x # y # rest) = El x # Sep # joinElements (y # rest)"

record useGodAnalysis =
  use_god :: "piece list"
  avoid_god :: "piece list"
  analysis :: "piece list"
  strength_level :: strengthLevel

text \<open>
  \<^verbatim>\<open>analyzeUseGod(dayElement, strengthAnalysis, pillars)\<close>; the third parameter is never
  read by the body.
\<close>

definition analyzeUseGod :: "element \<Rightarrow> overallStrength \<Rightarrow> pillars \<Rightarrow> useGodAnalysis" where
  "analyzeUseGod dayElement strengthAnalysis ps =
     (let strengthLevel = getStrengthLevel strengthAnalysis
      in if strengthLevel = VeryStrong \<or> strengthLevel = Strong then
           let restrainElements = getRestrainElements dayElement;
               drainElements = getDrainElements dayElement;
               consumeElements = getConsumeElements dayElement
           in \<lparr>use_god = joinElements restrainElements @ [Tag GuanSha, Sep]
                   @ joinElements drainElements @ [Tag ShiShang, Sep]
                   @ joinElements consumeElements @ [Tag CaiXing],
                avoid_god = [El dayElement, Tag BiJie, Sep]
                   @ joinElements (getGenerateElements dayElement) @ [Tag YinXing],
                analysis = [Txt RiZhuPrefix, El dayElement, Lvl strengthLevel, Txt StrongAdvice],
                strength_level = strengthLevel\<rparr>
         else if strengthLevel = VeryWeak \<or> strengthLevel = Weak then
           let generateElements = getGenerateElements dayElement
           in \<lparr>use_god = joinElements generateElements @ [Tag YinXing, Sep]
                   @ [El dayElement, Tag BiJie],
                avoid_god = joinElements (getRestrainElements dayElement) @ [Tag GuanSha, Sep]
                   @ joinElements (getDrainElements dayElement) @ [Tag ShiShang, Sep]
                   @ joinElements (getConsumeElements dayElement) @ [Tag CaiXing],
                analysis = [Txt RiZhuPrefix, El dayElement, Lvl strengthLevel, Txt WeakAdvice],
                strength_level = strengthLevel\<rparr>
         else
           \<lparr>use_god = [Txt BalancedUse],
            avoid_god = [Txt BalancedAvoid],
            analysis = [Txt RiZhuPrefix, El dayElement, Txt BalancedAdvice],
            strength_level = strengthLevel\<rparr>)"

text \<open>
  The elements named in a template string, in order of occurrence: the favorable
  elements are those of \<open>use_god\<close>, the unfavorable ones those of \<open>avoid_god\<close>.
\<close>

fun elementsOf :: "piece list \<Rightarrow> element list" where
  "elementsOf [] = []"
| "elementsOf (El e # rest) = e # elementsOf rest"
| "elementsOf (p # rest) = elementsOf rest"

subsection \<open>The strength analysis as a whole\<close>

record elementStrength =
  month_strength :: monthLabel
  hidden_stem_support :: "hiddenDetail support"
  stem_support :: "stemDetail support"
  overall_strength :: overallStrength
  es_strength_level :: strengthLevel
  use_god_analysis :: useGodAnalysis

definition analyzeElementStrength ::
  "BaseData \<Rightarrow> stem \<Rightarrow> branch \<Rightarrow> pillars \<Rightarrow> elementStrength" where
  "analyzeElementStrength bd dayMaster monthBranch ps =
     (let dayElement = getElementFromStem dayMaster;
          monthStrength = getMonthStrength dayElement monthBranch;
          hiddenStemSupport = analyzeHiddenStemSupport bd dayElement ps;
          stemSupport = analyzeStemSupport dayElement ps;
          overallStrength = calculateOverallStrength monthStrength hiddenStemSupport stemSupport
      in \<lparr>month_strength = monthStrength,
          hidden_stem_support = hiddenStemSupport,
          stem_support = stemSupport,
          overall_strength = overallStrength,
          es_strength_level = getStrengthLevel overallStrength,
          use_god_analysis = analyzeUseGod dayElement overallStrength ps\<rparr>)"

section \<open>Pillar computation\<close>

subsection \<open>JavaScript arithmetic and dates\<close>

text \<open>
  \<^verbatim>\<open>a % b\<close> on integers: the remainder takes the sign of the dividend.
\<close>

definition jsRem :: "int \<Rightarrow> int \<Rightarrow> int" where
  "jsRem a b = sgn a * (\<bar>a\<bar> mod \<bar>b\<bar>)"

definition isLeapYear :: "int \<Rightarrow> bool" where
  "isLeapYear y = ((y mod 4 = 0 \<and> y mod 100 \<noteq> 0) \<or> y mod 400 = 0)"

definition daysInMonth :: "int \<Rightarrow> int \<Rightarrow> int" where
  "daysInMonth y m =
     (if m = 2 then (if isLeapYear y then 29 else 28)
      else if m = 4 \<or> m = 6 \<or> m = 9 \<or> m = 11 then 30
      else 31)"

text \<open>
  The \<^verbatim>\<open>Date\<close> constructor reads a year from 0 to 99 as a year of the 20th century.
\<close>

definition jsYear :: "int \<Rightarrow> int" where
  "jsYear y = (if 0 \<le> y \<and> y \<le> 99 then 1900 + y else y)"

text \<open>
  \<^verbatim>\<open>new Date(y, m - 1, d)\<close> as read back by \<^verbatim>\<open>getFullYear()\<close>, \<^verbatim>\<open>getMonth() + 1\<close> and
  \<^verbatim>\<open>getDate()\<close>.  The analyzer builds dates from the fields of a \<^verbatim>\<open>Date\<close> and adds at
  most one to the day, so the model covers a month from 1 to 12 and a day from 1 to one
  past the end of the month; the day past the end rolls over to the first of the next
  month.  Time zones and daylight saving are not modelled.
\<close>

definition newDate :: "int \<Rightarrow> int \<Rightarrow> int \<Rightarrow> int \<times> int \<times> int" where
  "newDate y m d =
     (let y' = jsYear y
      in if d \<le> daysInMonth y' m then (y', m, d)
         else if m = 12 then (y' + 1, 1, d - daysInMonth y' m)
         else (y', m + 1, d - daysInMonth y' m))"

text \<open>
  \<^verbatim>\<open>new Date(y, m - 1, d, h, mi)\<close>, the instant handed to the solar-term calculator; hour
  and minute are those of a validated \<^verbatim>\<open>HH:MM\<close> string, or noon.
\<close>

record dateTime =
  dt_date :: "int \<times> int \<times> int"
  dt_hour :: int
  dt_minute :: int

definition newDateTime :: "int \<Rightarrow> int \<Rightarrow> int \<Rightarrow> int \<Rightarrow> int \<Rightarrow> dateTime" where
  "newDateTime y m d h mi = \<lparr>dt_date = newDate y m d, dt_hour = h, dt_minute = mi\<rparr>"

subsection \<open>Collaborators\<close>

text \<open>
  \<^verbatim>\<open>SolarTermsCalculator\<close> (\<^verbatim>\<open>../utils/solarTerms.cjs\<close>) and \<^verbatim>\<open>WanNianLi\<close>
  (\<^verbatim>\<open>../utils/wanNianLi.cjs\<close>) are not among the sources either; the methods that the
  analyzer calls are parameters.  Of the object returned by \<^verbatim>\<open>getSolarTermMonth\<close> only
  the field \<^verbatim>\<open>monthBranch\<close> is read.
\<close>

record SolarTermsCalculator =
  isAfterSpringBeginning :: "dateTime \<Rightarrow> bool"
  getSolarTermMonth :: "dateTime \<Rightarrow> branch"

record WanNianLi =
  getAccurateDayPillar :: "int \<Rightarrow> int \<Rightarrow> int \<Rightarrow> pillar"

text \<open>The fields of \<^verbatim>\<open>this\<close> that the pillar functions use.\<close>

record BaziAnalyzer =
  baseData :: BaseData
  solarTermsCalculator :: SolarTermsCalculator
  wanNianLi :: WanNianLi

subsection \<open>Year pillar\<close>

text \<open>
  \<^verbatim>\<open>calculateYearPillar(year, month, day, hour, minute)\<close>; the parameters are written
  \<open>y m d h mi\<close>.
\<close>

definition calculateYearPillar :: "BaziAnalyzer \<Rightarrow> int \<Rightarrow> int \<Rightarrow> int \<Rightarrow> int \<Rightarrow> int \<Rightarrow> pillar" where
  "calculateYearPillar this y m d h mi =
     (let currentDate = newDateTime y m d h mi;
          isAfterSpring = isAfterSpringBeginning (solarTermsCalculator this) currentDate;
          actualYear = (if \<not> isAfterSpring then y - 1 else y);
          stemIndex0 = jsRem (actualYear - 1984) 10;
          branchIndex0 = jsRem (actualYear - 1984) 12;
          finalStemIndex = jsRem (jsRem stemIndex0 10 + 10) 10;
          finalBranchIndex = jsRem (jsRem branchIndex0 12 + 12) 12
      in \<lparr>stem = getStemByIndex (baseData this) finalStemIndex,
          branch = getBranchByIndex (baseData this) finalBranchIndex,
          stemIndex = finalStemIndex,
          branchIndex = finalBranchIndex\<rparr>)"

subsection \<open>Month pillar\<close>

definition branchNames :: "branch list" where
  "branchNames = [Zi, Chou, Yin, Mao, Chen, Si, WuB, Wei, Shen, You, Xu, Hai]"

text \<open>\<^verbatim>\<open>xs.indexOf(x)\<close>: the first index of \<open>x\<close>, or \<open>-1\<close>.\<close>

fun indexOf :: "'a list \<Rightarrow> 'a \<Rightarrow> int" where
  "indexOf [] x = - 1"
| "indexOf (a # rest) x =
     (if a = x then 0 else (let i = indexOf rest x in if i < 0 then - 1 else i + 1))"

definition monthStemBase :: "(int \<times> int) list" where
  "monthStemBase =
     [(0, 2), (1, 4), (2, 6), (3, 8), (4, 0), (5, 2), (6, 4), (7, 6), (8, 8), (9, 0)]"

text \<open>
  A table lookup with a key outside \<open>0..9\<close> is \<^verbatim>\<open>undefined\<close> in the source and the index
  computed from it is \<^verbatim>\<open>NaN\<close>; the model returns \<open>None\<close> there.
\<close>

definition calculateMonthPillar ::
  "BaziAnalyzer \<Rightarrow> int \<Rightarrow> int \<Rightarrow> int \<Rightarrow> int \<Rightarrow> int \<Rightarrow> int \<Rightarrow> pillar option" where
  "calculateMonthPillar this y m d yearStemIndex h mi =
     (let currentDate = newDateTime y m d h mi;
          solarTermMonth = getSolarTermMonth (solarTermsCalculator this) currentDate;
          monthBranchIndex = indexOf branchNames solarTermMonth
      in case map_of monthStemBase yearStemIndex of
           None \<Rightarrow> None
         | Some base \<Rightarrow>
             let monthStemIndex = jsRem (base + jsRem (monthBranchIndex - 2 + 12) 12) 10
             in Some \<lparr>stem = getStemByIndex (baseData this) monthStemIndex,
                      branch = getBranchByIndex (baseData this) monthBranchIndex,
                      stemIndex = monthStemIndex,
                      branchIndex = monthBranchIndex\<rparr>)"

subsection \<open>Day pillar\<close>

definition calculateDayPillar :: "BaziAnalyzer \<Rightarrow> int \<Rightarrow> int \<Rightarrow> int \<Rightarrow> pillar" where
  "calculateDayPillar this y m d = getAccurateDayPillar (wanNianLi this) y m d"

subsection \<open>Hour pillar\<close>

definition hourStemBase :: "(int \<times> int) list" where
  "hourStemBase =
     [(0, 0), (1, 2), (2, 4), (3, 6), (4, 8), (5, 0), (6, 2), (7, 4), (8, 6), (9, 8)]"

text \<open>
  \<^verbatim>\<open>calculateHourPillar(hour, minute, dayStemIndex, year, month, day)\<close>.  For hour 23
  the day pillar of \<^verbatim>\<open>new Date(year, month - 1, day + 1)\<close> is looked up and its stem
  index replaces \<open>dayStemIndex\<close>.  \<^verbatim>\<open>Math.floor((hour + 1) / 2)\<close> is \<open>(h + 1) div 2\<close>.
\<close>

definition calculateHourPillar ::
  "BaziAnalyzer \<Rightarrow> int \<Rightarrow> int \<Rightarrow> int \<Rightarrow> int \<Rightarrow> int \<Rightarrow> int \<Rightarrow> hourPillar option" where
  "calculateHourPillar this h mi dayStemIndex y m d =
     (let isLateZiShi = (h = 23);
          isEarlyZiShi = (h \<noteq> 23 \<and> h = 0);
          actualDayStemIndex =
            (if h = 23 then
               (case newDate y m (d + 1) of
                  (ny, nm, nd) \<Rightarrow> stemIndex (calculateDayPillar this ny nm nd))
             else dayStemIndex);
          hourBranchIndex = (if h = 23 \<or> h = 0 then 0 else jsRem ((h + 1) div 2) 12)
      in case map_of hourStemBase actualDayStemIndex of
           None \<Rightarrow> None
         | Some base \<Rightarrow>
             let hourStemIndex = jsRem (base + hourBranchIndex) 10
             in Some \<lparr>stem = getStemByIndex (baseData this) hourStemIndex,
                      branch = getBranchByIndex (baseData this) hourBranchIndex,
                      stemIndex = hourStemIndex,
                      branchIndex = hourBranchIndex,
                      zishi_type = (if isLateZiShi then Some LateZiShi
                                    else if isEarlyZiShi then Some EarlyZiShi else None),
                      is_late_zishi = isLateZiShi,
                      is_early_zishi = isEarlyZiShi\<rparr>)"

section \<open>Chart assembly\<close>

text \<open>
  The record returned by \<^verbatim>\<open>calculatePreciseBazi\<close>.  The \<open>ten_god\<close> of the day pillar is
  the fixed mark \<open>RiZhu\<close> ("day master"); the other pillars carry a label of
  \<^verbatim>\<open>calculateTenGod\<close>.  The constant flags \<^verbatim>\<open>is_month_order\<close> and \<^verbatim>\<open>is_day_master\<close>,
  the Nayin names and the display string \<^verbatim>\<open>complete_chart\<close> are left out.
\<close>

datatype tenGodField = RiZhu | God tenGod

record chartPillar =
  c_stem :: stem
  c_branch :: branch
  c_element :: element
  c_hidden_stems :: "stem list"
  c_ten_god :: tenGodField

record chartHourPillar = chartPillar +
  c_zishi_type :: "zishi option"
  c_is_late_zishi :: bool
  c_is_early_zishi :: bool

record baziChart =
  year_pillar :: chartPillar
  month_pillar :: chartPillar
  day_pillar :: chartPillar
  hour_pillar :: chartHourPillar
  day_master :: stem
  day_master_element :: element
  month_order :: branch
  element_strength :: elementStrength

text \<open>
  The birth date is a string \<^verbatim>\<open>YYYY-MM-DD\<close>, written here as the triple of its three
  numbers.  \<^verbatim>\<open>new Date(birth_date)\<close> reads a date-only string as midnight UTC of that
  date, and \<^verbatim>\<open>getFullYear()\<close>, \<^verbatim>\<open>getMonth()\<close> and \<^verbatim>\<open>getDate()\<close> read that instant in
  the local time of the process.  With \<open>utcOffset\<close> the minutes by which local time is
  ahead of UTC at that instant (negative west of Greenwich, less than a day in size),
  the three getters give the written date when the offset is not negative and the day
  before it when the offset is negative.  The source pins no time zone.
\<close>

definition prevDay :: "int \<times> int \<times> int \<Rightarrow> int \<times> int \<times> int" where
  "prevDay D =
     (case D of (y, m, d) \<Rightarrow>
        if 1 < d then (y, m, d - 1)
        else if m = 1 then (y - 1, 12, 31)
        else (y, m - 1, daysInMonth y (m - 1)))"

definition decodeBirthDate :: "int \<Rightarrow> int \<times> int \<times> int \<Rightarrow> int \<times> int \<times> int" where
  "decodeBirthDate utcOffset birth_date =
     (if utcOffset < 0 then prevDay birth_date else birth_date)"

text \<open>
  \<^verbatim>\<open>calculatePreciseBazi(birth_date, birth_time)\<close>, in a process with the given offset
  from UTC.  The optional birth time is the pair of numbers parsed from \<^verbatim>\<open>HH:MM\<close>;
  without a birth time the hour is 12 and the minute 0.
\<close>

definition calculatePreciseBazi ::
  "BaziAnalyzer \<Rightarrow> int \<Rightarrow> int \<times> int \<times> int \<Rightarrow> (int \<times> int) option \<Rightarrow> baziChart option" where
  "calculatePreciseBazi this utcOffset birth_date birth_time =
     (case decodeBirthDate utcOffset birth_date of (birthYear, birthMonth, birthDay) \<Rightarrow>
      let birthHour = (case birth_time of Some t \<Rightarrow> fst t | None \<Rightarrow> 12);
          birthMinute = (case birth_time of Some t \<Rightarrow> snd t | None \<Rightarrow> 0);
          yearPillar = calculateYearPillar this birthYear birthMonth birthDay birthHour birthMinute
      in case calculateMonthPillar this birthYear birthMonth birthDay (stemIndex yearPillar)
                birthHour birthMinute of
           None \<Rightarrow> None
         | Some monthPillar \<Rightarrow>
             let dayPillar = calculateDayPillar this birthYear birthMonth birthDay
             in case calculateHourPillar this birthHour birthMinute (stemIndex dayPillar)
                       birthYear birthMonth birthDay of
                  None \<Rightarrow> None
                | Some hourPillar \<Rightarrow>
                    Some
                     \<lparr>year_pillar =
                        \<lparr>c_stem = stem yearPillar, c_branch = branch yearPillar,
                         c_element = getElementFromStem (stem yearPillar),
                         c_hidden_stems = getBranchHiddenStems (baseData this) (branch yearPillar),
                         c_ten_god = God (calculateTenGod (stem dayPillar) (stem yearPillar))\<rparr>,
                      month_pillar =
                        \<lparr>c_stem = stem monthPillar, c_branch = branch monthPillar,
                         c_element = getElementFromStem (stem monthPillar),
                         c_hidden_stems = getBranchHiddenStems (baseData this) (branch monthPillar),
                         c_ten_god = God (calculateTenGod (stem dayPillar) (stem monthPillar))\<rparr>,
                      day_pillar =
                        \<lparr>c_stem = stem dayPillar, c_branch = branch dayPillar,
                         c_element = getElementFromStem (stem dayPillar),
                         c_hidden_stems = getBranchHiddenStems (baseData this) (branch dayPillar),
                         c_ten_god = RiZhu\<rparr>,
                      hour_pillar =
                        \<lparr>c_stem = stem hourPillar, c_branch = branch hourPillar,
                         c_element = getElementFromStem (stem hourPillar),
                         c_hidden_stems = getBranchHiddenStems (baseData this) (branch hourPillar),
                         c_ten_god = God (calculateTenGod (stem dayPillar) (stem hourPillar)),
                         c_zishi_type = zishi_type hourPillar,
                         c_is_late_zishi = is_late_zishi hourPillar,
                         c_is_early_zishi = is_early_zishi hourPillar\<rparr>,
                      day_master = stem dayPillar,
                      day_master_element = getElementFromStem (stem dayPillar),
                      month_order = branch monthPillar,
                      element_strength =
                        analyzeElementStrength (baseData this) (stem dayPillar) (branch monthPillar)
                          \<lparr>year = yearPillar, month = monthPillar, day = dayPillar,
                           hour = hourPillar\<rparr>\<rparr>)"

section \<open>Calendar days\<close>

text \<open>
  The day count of the Gregorian calendar, against which the roll-over of \<open>newDate\<close> is
  checked: \<open>dayNumber\<close> counts the days from the first of January of the year 1.
\<close>

definition validDate :: "int \<times> int \<times> int \<Rightarrow> bool" where
  "validDate D =
     (case D of (y, m, d) \<Rightarrow> 1 \<le> m \<and> m \<le> 12 \<and> 1 \<le> d \<and> d \<le> daysInMonth y m)"

definition leapYearsBefore :: "int \<Rightarrow> int" where
  "leapYearsBefore y = (y - 1) div 4 - (y - 1) div 100 + (y - 1) div 400"

definition daysBeforeMonth :: "int \<Rightarrow> int \<Rightarrow> int" where
  "daysBeforeMonth y m = sum_list (map (daysInMonth y) [1..m - 1])"

definition dayNumber :: "int \<times> int \<times> int \<Rightarrow> int" where
  "dayNumber D =
     (case D of (y, m, d) \<Rightarrow> 365 * (y - 1) + leapYearsBefore y + daysBeforeMonth y m + d)"

section \<open>Sample tables and collaborators\<close>

text \<open>
  Concrete instances of the three missing classes, on which the model is evaluated:
  the stems and branches in cycle order with the traditional hidden stems (main stem
  first); a solar-term calculator that starts spring on the fourth of February and takes
  the month branch from the calendar month; a day-pillar lookup that counts the sixty-day
  cycle continuously, with the first of January 2000 as the day Wu/Wu (indices 4 and 6).
\<close>

definition stemNames :: "stem list" where
  "stemNames = [Jia, Yi, Bing, Ding, WuS, Ji, Geng, Xin, Ren, Gui]"

fun traditionalHiddenStems :: "branch \<Rightarrow> stem list" where
  "traditionalHiddenStems Zi = [Gui]"
| "traditionalHiddenStems Chou = [Ji, Gui, Xin]"
| "traditionalHiddenStems Yin = [Jia, Bing, WuS]"
| "traditionalHiddenStems Mao = [Yi]"
| "traditionalHiddenStems Chen = [WuS, Yi, Gui]"
| "traditionalHiddenStems Si = [Bing, Geng, WuS]"
| "traditionalHiddenStems WuB = [Ding, Ji]"
| "traditionalHiddenStems Wei = [Ji, Ding, Yi]"
| "traditionalHiddenStems Shen = [Geng, Ren, WuS]"
| "traditionalHiddenStems You = [Xin]"
| "traditionalHiddenStems Xu = [WuS, Xin, Ding]"
| "traditionalHiddenStems Hai = [Ren, Jia]"

definition sampleBaseData :: BaseData where
  "sampleBaseData =
     \<lparr>getStemByIndex = (\<lambda>i. stemNames ! nat (i mod 10)),
      getBranchByIndex = (\<lambda>i. branchNames ! nat (i mod 12)),
      getBranchHiddenStems = traditionalHiddenStems\<rparr>"

definition sampleSolarTerms :: SolarTermsCalculator where
  "sampleSolarTerms =
     \<lparr>isAfterSpringBeginning =
        (\<lambda>dt. case dt_date dt of (y, m, d) \<Rightarrow> m > 2 \<or> (m = 2 \<and> d \<ge> 4)),
      getSolarTermMonth =
        (\<lambda>dt. case dt_date dt of (y, m, d) \<Rightarrow> branchNames ! nat (m mod 12))\<rparr>"

definition sampleWanNianLi :: WanNianLi where
  "sampleWanNianLi =
     \<lparr>getAccurateDayPillar =
        (\<lambda>y m d.
           let si = (dayNumber (y, m, d) + 4) mod 10;
               bi = (dayNumber (y, m, d) + 2) mod 12
           in \<lparr>stem = stemNames ! nat si, branch = branchNames ! nat bi,
               stemIndex = si, branchIndex = bi\<rparr>)\<rparr>"

definition sampleAnalyzer :: BaziAnalyzer where
  "sampleAnalyzer =
     \<lparr>baseData = sampleBaseData, solarTermsCalculator = sampleSolarTerms,
      wanNianLi = sampleWanNianLi\<rparr>"

text \<open>A pillar given by its two cycle indices, and its hour-pillar form.\<close>

definition pillarOf :: "int \<Rightarrow> int \<Rightarrow> pillar" where
  "pillarOf si bi =
     \<lparr>stem = getStemByIndex sampleBaseData si, branch = getBranchByIndex sampleBaseData bi,
      stemIndex = si, branchIndex = bi\<rparr>"

definition hourPillarOf :: "int \<Rightarrow> int \<Rightarrow> hourPillar" where
  "hourPillarOf si bi =
     \<lparr>stem = getStemByIndex sampleBaseData si, branch = getBranchByIndex sampleBaseData bi,
      stemIndex = si, branchIndex = bi,
      zishi_type = None, is_late_zishi = False, is_early_zishi = False\<rparr>"

text \<open>
  Three charts: Ren/Zi, Ren/Zi, Jia/Zi, Jia/Zi (a Wood day master over four Water
  branches, with two Water stems), Yi/Chou, Wu/Zi, Geng/Zi, Ren/Wu and Jia/Zi, Bing/Yin,
  Jia/Wu, Jia/Zi.
\<close>

definition chartRenZi :: pillars where
  "chartRenZi =
     \<lparr>year = pillarOf 8 0, month = pillarOf 8 0, day = pillarOf 0 0, hour = hourPillarOf 0 0\<rparr>"

definition chartYiChou :: pillars where
  "chartYiChou =
     \<lparr>year = pillarOf 1 1, month = pillarOf 4 0, day = pillarOf 6 0, hour = hourPillarOf 8 6\<rparr>"

definition chartJiaWu :: pillars where
  "chartJiaWu =
     \<lparr>year = pillarOf 0 0, month = pillarOf 2 2, day = pillarOf 0 6, hour = hourPillarOf 0 0\<rparr>"

section \<open>Properties of the five-element relation and the Ten-God labels\<close>

lemma getElementRelation_not_neutral: "getElementRelation e1 e2 \<noteq> neutral"
  by (cases e1; cases e2) (simp_all add: getElementRelation_def)

lemma getElementFromStem_polarity:
  "getElementFromStem x = getElementFromStem y \<Longrightarrow> getStemYinYang x = getStemYinYang y \<Longrightarrow> x = y"
  by (cases x; cases y) (simp_all add: getElementFromStem_def getStemYinYang_def yangStems_def)

lemma generateCycle_no_fixpoint: "generateCycle e \<noteq> e"
  by (cases e) simp_all

lemma overcomeCycle_no_fixpoint: "overcomeCycle e \<noteq> e"
  by (cases e) simp_all

lemma getElementRelation_same: "getElementRelation e e = same"
  by (simp add: getElementRelation_def)

lemma getElementRelation_generate:
  "generateCycle e1 = e2 \<Longrightarrow> getElementRelation e1 e2 = generate"
  by (cases e1) (auto simp add: getElementRelation_def)

lemma getElementRelation_overcome:
  "overcomeCycle e1 = e2 \<Longrightarrow> getElementRelation e1 e2 = overcome"
  by (cases e1) (auto simp add: getElementRelation_def)

lemma getElementRelation_beGenerated:
  "generateCycle e2 = e1 \<Longrightarrow> getElementRelation e1 e2 = beGenerated"
  by (cases e2) (auto simp add: getElementRelation_def)

lemma getElementRelation_beOvercome:
  "overcomeCycle e2 = e1 \<Longrightarrow> getElementRelation e1 e2 = beOvercome"
  by (cases e2) (auto simp add: getElementRelation_def)

text \<open>
  Claim C9.  For all stems \<open>x\<close> and \<open>y\<close>, \<open>calculateTenGod\<close> never returns the fallback
  label "unknown": \<open>getElementRelation\<close> never returns \<open>neutral\<close> on the five elements, and
  two elements are equal or stand in exactly one of the four relations (the first
  produces the second, the first destroys the second, the second produces the first, the
  second destroys the first).
\<close>

theorem calculateTenGod_never_unknown:
  "calculateTenGod x y \<noteq> WeiZhi
   \<and> getElementRelation e1 e2 \<noteq> neutral
   \<and> (e1 = e2
      \<or> length (filter (\<lambda>b. b)
           [generateCycle e1 = e2, overcomeCycle e1 = e2,
            generateCycle e2 = e1, overcomeCycle e2 = e1]) = 1)"
proof (intro conjI)
  show "calculateTenGod x y \<noteq> WeiZhi"
    by (simp add: calculateTenGod_def Let_def getElementRelation_not_neutral
          split: relation.split)
  show "getElementRelation e1 e2 \<noteq> neutral"
    by (rule getElementRelation_not_neutral)
  show "e1 = e2
      \<or> length (filter (\<lambda>b. b)
           [generateCycle e1 = e2, overcomeCycle e1 = e2,
            generateCycle e2 = e1, overcomeCycle e2 = e1]) = 1"
    by (cases e1; cases e2) simp_all
qed

theorem calculateTenGod_never_unknown_witness:
  "calculateTenGod Jia Geng \<noteq> WeiZhi
   \<and> getElementRelation Wood Metal \<noteq> neutral
   \<and> length (filter (\<lambda>b. b)
        [generateCycle Wood = Metal, overcomeCycle Wood = Metal,
         generateCycle Metal = Wood, overcomeCycle Metal = Wood]) = 1"
  using calculateTenGod_never_unknown [of Jia Geng Wood Metal] by simp

text \<open>
  Claim C6.  \<open>calculateTenGod x x\<close> is Parallel (BiJian) for every stem \<open>x\<close>.  Otherwise the
  label is picked by the relation between the element of the reference stem \<open>x\<close> and the
  element of the target stem \<open>y\<close>, together with whether the polarities of the two stems
  agree: same element gives BiJian or JieCai, reference produces target ShiShen or
  ShangGuan, target produces reference PianYin or ZhengYin, reference destroys target
  PianCai or ZhengCai, target destroys reference QiSha or ZhengGuan (the first label for
  equal polarities).  Hence when the element of \<open>x\<close> produces the element of \<open>y\<close>,
  \<open>calculateTenGod x y\<close> differs from \<open>calculateTenGod y x\<close>.
\<close>

theorem calculateTenGod_labels:
  fixes x y :: stem
  defines "ex \<equiv> getElementFromStem x" and "ey \<equiv> getElementFromStem y"
    and "p \<equiv> (getStemYinYang x = getStemYinYang y)"
  shows "calculateTenGod x x = BiJian
   \<and> (ex = ey \<longrightarrow> calculateTenGod x y = (if p then BiJian else JieCai))
   \<and> (generateCycle ex = ey \<longrightarrow> calculateTenGod x y = (if p then ShiShen else ShangGuan))
   \<and> (generateCycle ey = ex \<longrightarrow> calculateTenGod x y = (if p then PianYin else ZhengYin))
   \<and> (overcomeCycle ex = ey \<longrightarrow> calculateTenGod x y = (if p then PianCai else ZhengCai))
   \<and> (overcomeCycle ey = ex \<longrightarrow> calculateTenGod x y = (if p then QiSha else ZhengGuan))
   \<and> (generateCycle ex = ey \<longrightarrow> calculateTenGod x y \<noteq> calculateTenGod y x)"
proof (intro conjI impI)
  show "calculateTenGod x x = BiJian"
    by (simp add: calculateTenGod_def)
next
  assume "ex = ey"
  then show "calculateTenGod x y = (if p then BiJian else JieCai)"
    unfolding ex_def ey_def p_def
    by (auto simp add: calculateTenGod_def Let_def getElementRelation_same)
next
  assume g: "generateCycle ex = ey"
  then have "x \<noteq> y" unfolding ex_def ey_def using generateCycle_no_fixpoint by auto
  then show "calculateTenGod x y = (if p then ShiShen else ShangGuan)"
    using getElementRelation_generate [OF g] unfolding ex_def ey_def p_def
    by (simp add: calculateTenGod_def Let_def)
next
  assume g: "generateCycle ey = ex"
  then have "x \<noteq> y" unfolding ex_def ey_def using generateCycle_no_fixpoint by auto
  then show "calculateTenGod x y = (if p then PianYin else ZhengYin)"
    using getElementRelation_beGenerated [OF g] unfolding ex_def ey_def p_def
    by (simp add: calculateTenGod_def Let_def)
next
  assume g: "overcomeCycle ex = ey"
  then have "x \<noteq> y" unfolding ex_def ey_def using overcomeCycle_no_fixpoint by auto
  then show "calculateTenGod x y = (if p then PianCai else ZhengCai)"
    using getElementRelation_overcome [OF g] unfolding ex_def ey_def p_def
    by (simp add: calculateTenGod_def Let_def)
next
  assume g: "overcomeCycle ey = ex"
  then have "x \<noteq> y" unfolding ex_def ey_def using overcomeCycle_no_fixpoint by auto
  then show "calculateTenGod x y = (if p then QiSha else ZhengGuan)"
    using getElementRelation_beOvercome [OF g] unfolding ex_def ey_def p_def
    by (simp add: calculateTenGod_def Let_def)
next
  assume g: "generateCycle ex = ey"
  then have ne: "x \<noteq> y" "y \<noteq> x"
    unfolding ex_def ey_def using generateCycle_no_fixpoint by auto
  have 1: "getElementRelation ex ey = generate"
    by (rule getElementRelation_generate [OF g])
  have 2: "getElementRelation ey ex = beGenerated"
    by (rule getElementRelation_beGenerated [OF g])
  show "calculateTenGod x y \<noteq> calculateTenGod y x"
    using ne 1 2 unfolding ex_def ey_def
    by (simp add: calculateTenGod_def Let_def)
qed

theorem calculateTenGod_labels_witness:
  "generateCycle (getElementFromStem Jia) = getElementFromStem Ding
   \<and> calculateTenGod Jia Jia = BiJian
   \<and> calculateTenGod Jia Ding = ShangGuan
   \<and> calculateTenGod Jia Ding \<noteq> calculateTenGod Ding Jia"
  using calculateTenGod_labels [of Jia Ding]
  by (auto simp add: getElementFromStem_def getStemYinYang_def yangStems_def)

section \<open>Properties of the strength scorer\<close>

lemma getMonthStrength_labels:
  "getMonthStrength el b
     \<in> {Prosperous, Supported, Resting, Dead, Void, Stored, Nascent, Residual}"
  by (cases el; cases b) (simp_all add: getMonthStrength_def seasonStrength_def)

lemma seasonStrength_row_total:
  "\<exists>row. map_of seasonStrength el = Some row \<and> map_of row b \<noteq> None"
  by (cases el; cases b) (simp_all add: seasonStrength_def)

lemma getMonthStrength_range_sup:
  "{Prosperous, Supported, Resting, Dead, Void, Stored, Nascent, Residual}
     \<subseteq> range (\<lambda>(el, b). getMonthStrength el b)"
proof -
  let ?f = "\<lambda>(el, b). getMonthStrength el b"
  have "Prosperous = ?f (Wood, Yin)" "Supported = ?f (Earth, Si)" "Resting = ?f (Wood, Chou)"
    "Dead = ?f (Wood, Si)" "Void = ?f (Wood, Shen)" "Stored = ?f (Wood, Xu)"
    "Nascent = ?f (Wood, Hai)" "Residual = ?f (Wood, Chen)"
    by (simp_all add: getMonthStrength_def seasonStrength_def)
  then show ?thesis by (metis (no_types, lifting) empty_subsetI insert_subset rangeI)
qed

text \<open>
  Claim C10.  For every element and every branch, \<open>getMonthStrength\<close> returns one of
  exactly eight labels (Prosperous, Supported, Resting, Dead, Void, Stored, Nascent,
  Residual).  The label Trapped has the weight \<open>-2\<close> in the weight table of
  \<open>calculateOverallStrength\<close> but is never produced, and the fallback label Flat (weight 0
  by the default) is never produced either, since every row of the season-strength table
  has an entry for each of the twelve branches.
\<close>

theorem getMonthStrength_eight_labels:
  "range (\<lambda>(el, b). getMonthStrength el b)
     = {Prosperous, Supported, Resting, Dead, Void, Stored, Nascent, Residual}
   \<and> getMonthStrength el b
       \<in> {Prosperous, Supported, Resting, Dead, Void, Stored, Nascent, Residual}
   \<and> getMonthStrength el b \<noteq> Trapped
   \<and> getMonthStrength el b \<noteq> Flat
   \<and> (\<exists>row. map_of seasonStrength el = Some row \<and> map_of row b \<noteq> None)
   \<and> map_of monthScoreTable Trapped = Some (- 2)
   \<and> map_of monthScoreTable Flat = None
   \<and> monthScoreOf Flat = 0"
proof (intro conjI)
  show "range (\<lambda>(el, b). getMonthStrength el b)
     = {Prosperous, Supported, Resting, Dead, Void, Stored, Nascent, Residual}"
  proof
    show "range (\<lambda>(el, b). getMonthStrength el b)
       \<subseteq> {Prosperous, Supported, Resting, Dead, Void, Stored, Nascent, Residual}"
      using getMonthStrength_labels by (auto simp del: insert_iff)
  next
    show "{Prosperous, Supported, Resting, Dead, Void, Stored, Nascent, Residual}
       \<subseteq> range (\<lambda>(el, b). getMonthStrength el b)"
      by (rule getMonthStrength_range_sup)
  qed
  show "getMonthStrength el b
       \<in> {Prosperous, Supported, Resting, Dead, Void, Stored, Nascent, Residual}"
    by (rule getMonthStrength_labels)
  show "getMonthStrength el b \<noteq> Trapped"
    using getMonthStrength_labels [of el b] by auto
  show "getMonthStrength el b \<noteq> Flat"
    using getMonthStrength_labels [of el b] by auto
  show "\<exists>row. map_of seasonStrength el = Some row \<and> map_of row b \<noteq> None"
    by (rule seasonStrength_row_total)
  show "map_of monthScoreTable Trapped = Some (- 2)"
    by (simp add: monthScoreTable_def)
  show "map_of monthScoreTable Flat = None"
    by (simp add: monthScoreTable_def)
  show "monthScoreOf Flat = 0"
    by (simp add: monthScoreOf_def monthScoreTable_def)
qed

theorem getMonthStrength_eight_labels_witness:
  "getMonthStrength Metal Chou = Supported
   \<and> getMonthStrength Metal Chou \<noteq> Trapped
   \<and> getMonthStrength Metal Chou \<noteq> Flat
   \<and> monthScoreOf Flat = 0"
  using getMonthStrength_eight_labels [of Metal Chou]
  by (simp add: getMonthStrength_def seasonStrength_def)

text \<open>
  Claim C3.  For every overall-strength record the level returned by \<open>getStrengthLevel\<close>
  is determined by the total score, with bands inclusive on their lower bound: at least 6
  is VeryStrong, from 3 to below 6 Strong, from \<open>-1\<close> to below 3 Balanced, from \<open>-4\<close> to
  below \<open>-1\<close> Weak, below \<open>-4\<close> VeryWeak.  A total score of exactly 3 is Strong and a total
  score of 2.999 is Balanced.
\<close>

theorem getStrengthLevel_bands:
  fixes overall :: overallStrength
  defines "s \<equiv> total_score overall"
  shows "(getStrengthLevel overall = VeryStrong) = (6 \<le> s)
   \<and> (getStrengthLevel overall = Strong) = (3 \<le> s \<and> s < 6)
   \<and> (getStrengthLevel overall = Balanced) = (- 1 \<le> s \<and> s < 3)
   \<and> (getStrengthLevel overall = Weak) = (- 4 \<le> s \<and> s < - 1)
   \<and> (getStrengthLevel overall = VeryWeak) = (s < - 4)
   \<and> getStrengthLevel (overall\<lparr>total_score := 3\<rparr>) = Strong
   \<and> getStrengthLevel (overall\<lparr>total_score := 2999 / 1000\<rparr>) = Balanced"
  unfolding s_def by (auto simp add: getStrengthLevel_def Let_def)

theorem getStrengthLevel_bands_witness:
  "getStrengthLevel \<lparr>month_score = 4, hidden_score = - 1, stem_score = 0, total_score = 3\<rparr>
     = Strong
   \<and> getStrengthLevel
       \<lparr>month_score = 4, hidden_score = - (1001 / 1000), stem_score = 0,
        total_score = 2999 / 1000\<rparr> = Balanced
   \<and> getStrengthLevel \<lparr>month_score = 0, hidden_score = - 1, stem_score = 0, total_score = - 1\<rparr>
     = Balanced
   \<and> getStrengthLevel \<lparr>month_score = - 3, hidden_score = - 1, stem_score = 0, total_score = - 4\<rparr>
     = Weak"
  using
    getStrengthLevel_bands
      [of "\<lparr>month_score = 4, hidden_score = - 1, stem_score = 0, total_score = 3\<rparr>"]
    getStrengthLevel_bands
      [of "\<lparr>month_score = 4, hidden_score = - (1001 / 1000), stem_score = 0,
            total_score = 2999 / 1000\<rparr>"]
    getStrengthLevel_bands
      [of "\<lparr>month_score = 0, hidden_score = - 1, stem_score = 0, total_score = - 1\<rparr>"]
    getStrengthLevel_bands
      [of "\<lparr>month_score = - 3, hidden_score = - 1, stem_score = 0, total_score = - 4\<rparr>"]
  by simp

section \<open>Properties of the pillar computation\<close>

lemma jsRem_nonneg: "0 < k \<Longrightarrow> 0 \<le> a \<Longrightarrow> jsRem a k = a mod k"
  by (simp add: jsRem_def sgn_if)

lemma jsRem_neg: "0 < k \<Longrightarrow> a < 0 \<Longrightarrow> jsRem a k = - ((- a) mod k)"
  by (simp add: jsRem_def sgn_if)

lemma jsRem_mod: "0 < k \<Longrightarrow> jsRem a k mod k = a mod k"
  by (cases "0 \<le> a") (simp_all add: jsRem_nonneg jsRem_neg mod_minus_eq)

lemma jsRem_bounds:
  assumes k: "0 < k"
  shows "- k < jsRem a k \<and> jsRem a k < k"
proof (cases "0 \<le> a")
  case True
  then have "jsRem a k = a mod k" using k by (simp add: jsRem_nonneg)
  then show ?thesis
    using pos_mod_sign [OF k, of a] pos_mod_bound [OF k, of a] k by linarith
next
  case False
  then have "jsRem a k = - ((- a) mod k)" using k by (simp add: jsRem_neg)
  then show ?thesis
    using pos_mod_sign [OF k, of "- a"] pos_mod_bound [OF k, of "- a"] k by linarith
qed

lemma jsRem_small:
  assumes k: "0 < k" and lo: "- k < r" and hi: "r < k"
  shows "jsRem r k = r"
proof (cases "0 \<le> r")
  case True
  then show ?thesis using k hi by (simp add: jsRem_nonneg)
next
  case False
  then have "(- r) mod k = - r" using lo by simp
  then show ?thesis using False k by (simp add: jsRem_neg)
qed

text \<open>The idiom \<^verbatim>\<open>((i % k) + k) % k\<close> applied to \<^verbatim>\<open>i = a % k\<close> is the floored modulus.\<close>

lemma jsRem_normalise:
  assumes k: "0 < k"
  shows "jsRem (jsRem (jsRem a k) k + k) k = a mod k"
proof -
  define r where "r = jsRem a k"
  have b: "- k < r" "r < k" using jsRem_bounds [OF k, of a] by (simp_all add: r_def)
  have 1: "jsRem r k = r" using k b by (rule jsRem_small)
  have "0 \<le> r + k" using b by simp
  then have 2: "jsRem (r + k) k = (r + k) mod k"
    using k by (simp add: jsRem_nonneg)
  have 3: "(r + k) mod k = a mod k"
    using jsRem_mod [OF k, of a] by (simp add: r_def)
  show ?thesis using 1 2 3 by (simp add: r_def [symmetric])
qed

lemma calculateYearPillar_stemIndex:
  "stemIndex (calculateYearPillar this y m d h mi) =
     ((if isAfterSpringBeginning (solarTermsCalculator this) (newDateTime y m d h mi)
       then y else y - 1) - 1984) mod 10"
  by (simp add: calculateYearPillar_def Let_def jsRem_normalise)

lemma calculateYearPillar_branchIndex:
  "branchIndex (calculateYearPillar this y m d h mi) =
     ((if isAfterSpringBeginning (solarTermsCalculator this) (newDateTime y m d h mi)
       then y else y - 1) - 1984) mod 12"
  by (simp add: calculateYearPillar_def Let_def jsRem_normalise)

text \<open>
  Claim C7.  For every birth instant the year pillar uses the birth calendar year, unless
  the solar-term calculator answers that the instant is not after the Start of Spring,
  in which case it uses the year before.  The stem index is that year minus 1984 modulo
  10 and the branch index the same difference modulo 12, both normalised: they lie in
  \<open>[0, 10)\<close> and \<open>[0, 12)\<close> also for years before 1984, where the remainder that
  JavaScript computes first is negative.  The stem and the branch of the pillar are read
  from the base data at these indices.
\<close>

theorem calculateYearPillar_indices:
  fixes this :: BaziAnalyzer
  defines "actualYear y m d h mi \<equiv>
    (if isAfterSpringBeginning (solarTermsCalculator this) (newDateTime y m d h mi)
     then y else y - 1)"
  shows "stemIndex (calculateYearPillar this y m d h mi) = (actualYear y m d h mi - 1984) mod 10
   \<and> branchIndex (calculateYearPillar this y m d h mi) = (actualYear y m d h mi - 1984) mod 12
   \<and> 0 \<le> stemIndex (calculateYearPillar this y m d h mi)
   \<and> stemIndex (calculateYearPillar this y m d h mi) < 10
   \<and> 0 \<le> branchIndex (calculateYearPillar this y m d h mi)
   \<and> branchIndex (calculateYearPillar this y m d h mi) < 12
   \<and> stem (calculateYearPillar this y m d h mi)
       = getStemByIndex (baseData this) ((actualYear y m d h mi - 1984) mod 10)
   \<and> branch (calculateYearPillar this y m d h mi)
       = getBranchByIndex (baseData this) ((actualYear y m d h mi - 1984) mod 12)"
proof -
  have s: "stemIndex (calculateYearPillar this y m d h mi) = (actualYear y m d h mi - 1984) mod 10"
    unfolding actualYear_def by (rule calculateYearPillar_stemIndex)
  have b: "branchIndex (calculateYearPillar this y m d h mi) = (actualYear y m d h mi - 1984) mod 12"
    unfolding actualYear_def by (rule calculateYearPillar_branchIndex)
  have st: "stem (calculateYearPillar this y m d h mi)
      = getStemByIndex (baseData this) (stemIndex (calculateYearPillar this y m d h mi))"
    by (simp add: calculateYearPillar_def Let_def)
  have br: "branch (calculateYearPillar this y m d h mi)
      = getBranchByIndex (baseData this) (branchIndex (calculateYearPillar this y m d h mi))"
    by (simp add: calculateYearPillar_def Let_def)
  show ?thesis using st br unfolding s b by simp
qed

theorem calculateYearPillar_indices_witness:
  "jsRem (1980 - 1984) 10 = - 4
   \<and> stemIndex (calculateYearPillar sampleAnalyzer 1980 6 15 12 0) = 6
   \<and> branchIndex (calculateYearPillar sampleAnalyzer 1980 6 15 12 0) = 8
   \<and> stemIndex (calculateYearPillar sampleAnalyzer 1980 1 15 12 0) = 5
   \<and> branchIndex (calculateYearPillar sampleAnalyzer 1980 1 15 12 0) = 7"
  using calculateYearPillar_indices [of sampleAnalyzer 1980 6 15 12 0]
    calculateYearPillar_indices [of sampleAnalyzer 1980 1 15 12 0]
  by (simp add: sampleAnalyzer_def sampleSolarTerms_def newDateTime_def newDate_def
        jsYear_def daysInMonth_def jsRem_def)

section \<open>Properties of the use-god inference\<close>

lemma getRestrainElements_overcome:
  "\<exists>a. overcomeCycle a = el \<and> getRestrainElements el = [a]"
  by (cases el) (simp_all add: getRestrainElements_def restrainMap_def)

lemma getGenerateElements_generate:
  "\<exists>g. generateCycle g = el \<and> getGenerateElements el = [g]"
  by (cases el) (simp_all add: getGenerateElements_def generateMap_def)

lemma getDrainElements_generate: "getDrainElements el = [generateCycle el]"
  by (cases el) (simp_all add: getDrainElements_def drainMap_def)

lemma getConsumeElements_overcome: "getConsumeElements el = [overcomeCycle el]"
  by (cases el) (simp_all add: getConsumeElements_def consumeMap_def)

lemma analyzeUseGod_strong:
  assumes "getStrengthLevel overall = VeryStrong \<or> getStrengthLevel overall = Strong"
  shows "\<exists>a g. overcomeCycle a = el \<and> generateCycle g = el
     \<and> elementsOf (use_god (analyzeUseGod el overall ps)) = [a, generateCycle el, overcomeCycle el]
     \<and> elementsOf (avoid_god (analyzeUseGod el overall ps)) = [el, g]"
proof -
  obtain a where a: "overcomeCycle a = el" "getRestrainElements el = [a]"
    using getRestrainElements_overcome by blast
  obtain g where g: "generateCycle g = el" "getGenerateElements el = [g]"
    using getGenerateElements_generate by blast
  have "elementsOf (use_god (analyzeUseGod el overall ps)) = [a, generateCycle el, overcomeCycle el]"
    using assms a g
    by (auto simp add: analyzeUseGod_def Let_def getDrainElements_generate
          getConsumeElements_overcome)
  moreover have "elementsOf (avoid_god (analyzeUseGod el overall ps)) = [el, g]"
    using assms a g by (auto simp add: analyzeUseGod_def Let_def)
  ultimately show ?thesis using a g by blast
qed

lemma analyzeUseGod_weak:
  assumes "getStrengthLevel overall = Weak \<or> getStrengthLevel overall = VeryWeak"
  shows "\<exists>a g. overcomeCycle a = el \<and> generateCycle g = el
     \<and> elementsOf (use_god (analyzeUseGod el overall ps)) = [g, el]
     \<and> elementsOf (avoid_god (analyzeUseGod el overall ps))
         = [a, generateCycle el, overcomeCycle el]"
proof -
  obtain a where a: "overcomeCycle a = el" "getRestrainElements el = [a]"
    using getRestrainElements_overcome by blast
  obtain g where g: "generateCycle g = el" "getGenerateElements el = [g]"
    using getGenerateElements_generate by blast
  have "elementsOf (use_god (analyzeUseGod el overall ps)) = [g, el]"
    using assms a g by (auto simp add: analyzeUseGod_def Let_def)
  moreover have "elementsOf (avoid_god (analyzeUseGod el overall ps))
      = [a, generateCycle el, overcomeCycle el]"
    using assms a g
    by (auto simp add: analyzeUseGod_def Let_def getDrainElements_generate
          getConsumeElements_overcome)
  ultimately show ?thesis using a g by blast
qed

lemma analyzeUseGod_balanced:
  assumes "getStrengthLevel overall = Balanced"
  shows "use_god (analyzeUseGod el overall ps) = [Txt BalancedUse]
     \<and> avoid_god (analyzeUseGod el overall ps) = [Txt BalancedAvoid]
     \<and> analysis (analyzeUseGod el overall ps) = [Txt RiZhuPrefix, El el, Txt BalancedAdvice]"
  using assms by (simp add: analyzeUseGod_def Let_def)

text \<open>
  Claim C5.  For every day-master element \<open>el\<close>, \<open>analyzeUseGod\<close> returns: at the levels
  VeryStrong and Strong, as favorable elements the element that destroys \<open>el\<close>, the element
  that \<open>el\<close> produces and the element that \<open>el\<close> destroys, and as unfavorable elements \<open>el\<close>
  itself and the element that produces \<open>el\<close>; at the levels Weak and VeryWeak, as
  favorable elements the element that produces \<open>el\<close> and \<open>el\<close> itself, and as unfavorable
  elements the element that destroys \<open>el\<close>, the element that \<open>el\<close> produces and the element
  that \<open>el\<close> destroys; at the level Balanced no elements, only fixed situational texts.
  (The favorable elements are the elements named in \<open>use_god\<close>, the unfavorable ones those
  named in \<open>avoid_god\<close>, in this order.)
\<close>

theorem analyzeUseGod_elements:
  fixes el :: element and overall :: overallStrength and ps :: pillars
  defines "lvl \<equiv> getStrengthLevel overall"
    and "fav \<equiv> elementsOf (use_god (analyzeUseGod el overall ps))"
    and "unfav \<equiv> elementsOf (avoid_god (analyzeUseGod el overall ps))"
  shows "(lvl = VeryStrong \<or> lvl = Strong \<longrightarrow>
            (\<exists>a g. overcomeCycle a = el \<and> generateCycle g = el
               \<and> fav = [a, generateCycle el, overcomeCycle el] \<and> unfav = [el, g]
               \<and> set fav = {a, generateCycle el, overcomeCycle el} \<and> set unfav = {el, g}))
   \<and> (lvl = Weak \<or> lvl = VeryWeak \<longrightarrow>
            (\<exists>a g. overcomeCycle a = el \<and> generateCycle g = el
               \<and> fav = [g, el] \<and> unfav = [a, generateCycle el, overcomeCycle el]
               \<and> set fav = {g, el} \<and> set unfav = {a, generateCycle el, overcomeCycle el}))
   \<and> (lvl = Balanced \<longrightarrow>
            fav = [] \<and> unfav = []
            \<and> use_god (analyzeUseGod el overall ps) = [Txt BalancedUse]
            \<and> avoid_god (analyzeUseGod el overall ps) = [Txt BalancedAvoid])
   \<and> strength_level (analyzeUseGod el overall ps) = lvl"
proof -
  have 1: "lvl = VeryStrong \<or> lvl = Strong \<longrightarrow>
            (\<exists>a g. overcomeCycle a = el \<and> generateCycle g = el
               \<and> fav = [a, generateCycle el, overcomeCycle el] \<and> unfav = [el, g]
               \<and> set fav = {a, generateCycle el, overcomeCycle el} \<and> set unfav = {el, g})"
  proof
    assume "lvl = VeryStrong \<or> lvl = Strong"
    then obtain a g where "overcomeCycle a = el" "generateCycle g = el"
      "fav = [a, generateCycle el, overcomeCycle el]" "unfav = [el, g]"
      unfolding lvl_def fav_def unfav_def using analyzeUseGod_strong by blast
    then show "\<exists>a g. overcomeCycle a = el \<and> generateCycle g = el
               \<and> fav = [a, generateCycle el, overcomeCycle el] \<and> unfav = [el, g]
               \<and> set fav = {a, generateCycle el, overcomeCycle el} \<and> set unfav = {el, g}"
      by (intro exI [of _ a] exI [of _ g]) simp
  qed
  have 2: "lvl = Weak \<or> lvl = VeryWeak \<longrightarrow>
            (\<exists>a g. overcomeCycle a = el \<and> generateCycle g = el
               \<and> fav = [g, el] \<and> unfav = [a, generateCycle el, overcomeCycle el]
               \<and> set fav = {g, el} \<and> set unfav = {a, generateCycle el, overcomeCycle el})"
  proof
    assume "lvl = Weak \<or> lvl = VeryWeak"
    then obtain a g where "overcomeCycle a = el" "generateCycle g = el"
      "fav = [g, el]" "unfav = [a, generateCycle el, overcomeCycle el]"
      unfolding lvl_def fav_def unfav_def using analyzeUseGod_weak by blast
    then show "\<exists>a g. overcomeCycle a = el \<and> generateCycle g = el
               \<and> fav = [g, el] \<and> unfav = [a, generateCycle el, overcomeCycle el]
               \<and> set fav = {g, el} \<and> set unfav = {a, generateCycle el, overcomeCycle el}"
      by (intro exI [of _ a] exI [of _ g]) simp
  qed
  have 3: "lvl = Balanced \<longrightarrow>
            fav = [] \<and> unfav = []
            \<and> use_god (analyzeUseGod el overall ps) = [Txt BalancedUse]
            \<and> avoid_god (analyzeUseGod el overall ps) = [Txt BalancedAvoid]"
    using analyzeUseGod_balanced [of overall el ps]
    unfolding lvl_def fav_def unfav_def by simp
  have 4: "strength_level (analyzeUseGod el overall ps) = lvl"
    unfolding lvl_def by (simp add: analyzeUseGod_def Let_def)
  show ?thesis using 1 2 3 4 by (intro conjI)
qed

theorem analyzeUseGod_elements_witness:
  "getStrengthLevel \<lparr>month_score = 4, hidden_score = - 1, stem_score = 0, total_score = 3\<rparr>
     = Strong
   \<and> set (elementsOf (use_god (analyzeUseGod Wood
        \<lparr>month_score = 4, hidden_score = - 1, stem_score = 0, total_score = 3\<rparr> chartJiaWu)))
     = {Metal, Fire, Earth}
   \<and> set (elementsOf (avoid_god (analyzeUseGod Wood
        \<lparr>month_score = 4, hidden_score = - 1, stem_score = 0, total_score = 3\<rparr> chartJiaWu)))
     = {Wood, Water}"
proof -
  let ?o = "\<lparr>month_score = 4, hidden_score = - 1, stem_score = 0, total_score = 3\<rparr>"
  have l: "getStrengthLevel ?o = Strong"
    by (simp add: getStrengthLevel_def)
  from analyzeUseGod_elements [of ?o Wood chartJiaWu] l
  obtain a g where ag: "overcomeCycle a = Wood" "generateCycle g = Wood"
    and f: "set (elementsOf (use_god (analyzeUseGod Wood ?o chartJiaWu)))
       = {a, generateCycle Wood, overcomeCycle Wood}"
    and u: "set (elementsOf (avoid_god (analyzeUseGod Wood ?o chartJiaWu))) = {Wood, g}"
    by auto
  have "a = Metal" using ag(1) by (cases a) simp_all
  moreover have "g = Water" using ag(2) by (cases g) simp_all
  ultimately show ?thesis using l f u by simp
qed

lemma analyzeUseGod_disjoint:
  "set (elementsOf (use_god (analyzeUseGod el overall ps)))
     \<inter> set (elementsOf (avoid_god (analyzeUseGod el overall ps))) = {}"
  by (cases el)
    (simp_all add: analyzeUseGod_def Let_def getRestrainElements_def restrainMap_def
       getDrainElements_def drainMap_def getConsumeElements_def consumeMap_def
       getGenerateElements_def generateMap_def)

lemma analyzeUseGod_level_only:
  "getStrengthLevel o1 = getStrengthLevel o2 \<Longrightarrow>
     analyzeUseGod el o1 ps1 = analyzeUseGod el o2 ps2"
  by (simp add: analyzeUseGod_def Let_def)

lemma analyzeElementStrength_use_god:
  "use_god_analysis (analyzeElementStrength bd dm mb ps)
     = analyzeUseGod (getElementFromStem dm) (overall_strength (analyzeElementStrength bd dm mb ps)) ps
   \<and> es_strength_level (analyzeElementStrength bd dm mb ps)
     = getStrengthLevel (overall_strength (analyzeElementStrength bd dm mb ps))"
  by (simp add: analyzeElementStrength_def Let_def)

text \<open>
  Claim C8.  For every day-master element and level, the favorable and the unfavorable
  elements returned by the use-god inference are disjoint (in particular in the branches
  for the strong and the weak levels, where both are non-empty), and both depend only on
  the day-master element and the strength level: two overall-strength records with the
  same level, and two charts with the same day-master element and the same strength
  level, receive the same use-god analysis whatever their pillars are.
\<close>

theorem analyzeUseGod_disjoint_and_determined:
  "set (elementsOf (use_god (analyzeUseGod el overall ps)))
     \<inter> set (elementsOf (avoid_god (analyzeUseGod el overall ps))) = {}
   \<and> (getStrengthLevel overall \<noteq> Balanced \<longrightarrow>
        elementsOf (use_god (analyzeUseGod el overall ps)) \<noteq> []
        \<and> elementsOf (avoid_god (analyzeUseGod el overall ps)) \<noteq> [])
   \<and> (getStrengthLevel o1 = getStrengthLevel o2 \<longrightarrow>
        analyzeUseGod el o1 ps1 = analyzeUseGod el o2 ps2)
   \<and> (getElementFromStem dm1 = getElementFromStem dm2
        \<and> es_strength_level (analyzeElementStrength bd1 dm1 mb1 ps1)
            = es_strength_level (analyzeElementStrength bd2 dm2 mb2 ps2) \<longrightarrow>
        use_god_analysis (analyzeElementStrength bd1 dm1 mb1 ps1)
          = use_god_analysis (analyzeElementStrength bd2 dm2 mb2 ps2))"
proof -
  have 1: "set (elementsOf (use_god (analyzeUseGod el overall ps)))
     \<inter> set (elementsOf (avoid_god (analyzeUseGod el overall ps))) = {}"
    by (rule analyzeUseGod_disjoint)
  have 2: "getStrengthLevel overall \<noteq> Balanced \<longrightarrow>
        elementsOf (use_god (analyzeUseGod el overall ps)) \<noteq> []
        \<and> elementsOf (avoid_god (analyzeUseGod el overall ps)) \<noteq> []"
  proof
    assume "getStrengthLevel overall \<noteq> Balanced"
    then consider "getStrengthLevel overall = VeryStrong \<or> getStrengthLevel overall = Strong"
      | "getStrengthLevel overall = Weak \<or> getStrengthLevel overall = VeryWeak"
      by (cases "getStrengthLevel overall") simp_all
    then show "elementsOf (use_god (analyzeUseGod el overall ps)) \<noteq> []
        \<and> elementsOf (avoid_god (analyzeUseGod el overall ps)) \<noteq> []"
    proof cases
      case 1
      then show ?thesis using analyzeUseGod_strong [of overall el ps] by auto
    next
      case 2
      then show ?thesis using analyzeUseGod_weak [of overall el ps] by auto
    qed
  qed
  have 3: "getStrengthLevel o1 = getStrengthLevel o2 \<longrightarrow>
        analyzeUseGod el o1 ps1 = analyzeUseGod el o2 ps2"
    using analyzeUseGod_level_only by blast
  have 4: "getElementFromStem dm1 = getElementFromStem dm2
        \<and> es_strength_level (analyzeElementStrength bd1 dm1 mb1 ps1)
            = es_strength_level (analyzeElementStrength bd2 dm2 mb2 ps2) \<longrightarrow>
        use_god_analysis (analyzeElementStrength bd1 dm1 mb1 ps1)
          = use_god_analysis (analyzeElementStrength bd2 dm2 mb2 ps2)"
  proof
    assume h: "getElementFromStem dm1 = getElementFromStem dm2
        \<and> es_strength_level (analyzeElementStrength bd1 dm1 mb1 ps1)
            = es_strength_level (analyzeElementStrength bd2 dm2 mb2 ps2)"
    then have "getStrengthLevel (overall_strength (analyzeElementStrength bd1 dm1 mb1 ps1))
       = getStrengthLevel (overall_strength (analyzeElementStrength bd2 dm2 mb2 ps2))"
      using analyzeElementStrength_use_god by metis
    then have "analyzeUseGod (getElementFromStem dm1)
          (overall_strength (analyzeElementStrength bd1 dm1 mb1 ps1)) ps1
        = analyzeUseGod (getElementFromStem dm1)
          (overall_strength (analyzeElementStrength bd2 dm2 mb2 ps2)) ps2"
      by (rule analyzeUseGod_level_only)
    then show "use_god_analysis (analyzeElementStrength bd1 dm1 mb1 ps1)
          = use_god_analysis (analyzeElementStrength bd2 dm2 mb2 ps2)"
      using h analyzeElementStrength_use_god by metis
  qed
  show ?thesis using 1 2 3 4 by (intro conjI)
qed

theorem analyzeUseGod_disjoint_and_determined_witness:
  "getStrengthLevel \<lparr>month_score = 4, hidden_score = - 1, stem_score = 0, total_score = 3\<rparr>
     = getStrengthLevel \<lparr>month_score = 4, hidden_score = 2, stem_score = - 1, total_score = 5\<rparr>
   \<and> getStrengthLevel \<lparr>month_score = 4, hidden_score = - 1, stem_score = 0, total_score = 3\<rparr>
     \<noteq> Balanced
   \<and> analyzeUseGod Wood
        \<lparr>month_score = 4, hidden_score = - 1, stem_score = 0, total_score = 3\<rparr> chartJiaWu
     = analyzeUseGod Wood
        \<lparr>month_score = 4, hidden_score = 2, stem_score = - 1, total_score = 5\<rparr> chartRenZi
   \<and> set (elementsOf (use_god (analyzeUseGod Wood
        \<lparr>month_score = 4, hidden_score = - 1, stem_score = 0, total_score = 3\<rparr> chartJiaWu)))
     \<inter> set (elementsOf (avoid_god (analyzeUseGod Wood
        \<lparr>month_score = 4, hidden_score = - 1, stem_score = 0, total_score = 3\<rparr> chartJiaWu)))
     = {}
   \<and> elementsOf (use_god (analyzeUseGod Wood
        \<lparr>month_score = 4, hidden_score = - 1, stem_score = 0, total_score = 3\<rparr> chartJiaWu))
     \<noteq> []"
proof -
  let ?o1 = "\<lparr>month_score = 4, hidden_score = - 1, stem_score = 0, total_score = 3\<rparr>"
  let ?o2 = "\<lparr>month_score = 4, hidden_score = 2, stem_score = - 1, total_score = 5\<rparr>"
  have l: "getStrengthLevel ?o1 = Strong" "getStrengthLevel ?o2 = Strong"
    by (simp_all add: getStrengthLevel_def)
  note t = analyzeUseGod_disjoint_and_determined
        [of Wood ?o1 chartJiaWu ?o1 ?o2 chartJiaWu chartRenZi Jia Jia
            sampleBaseData Yin sampleBaseData Yin]
  have 1: "getStrengthLevel ?o1 = getStrengthLevel ?o2" using l by simp
  have 2: "getStrengthLevel ?o1 \<noteq> Balanced" using l by simp
  have 3: "analyzeUseGod Wood ?o1 chartJiaWu = analyzeUseGod Wood ?o2 chartRenZi"
    using t 1 by blast
  have 4: "set (elementsOf (use_god (analyzeUseGod Wood ?o1 chartJiaWu)))
     \<inter> set (elementsOf (avoid_god (analyzeUseGod Wood ?o1 chartJiaWu))) = {}"
    using t by blast
  have 5: "elementsOf (use_god (analyzeUseGod Wood ?o1 chartJiaWu)) \<noteq> []"
    using t 2 by blast
  show ?thesis using 1 2 3 4 5 by (intro conjI)
qed

section \<open>The two support scores on a concrete chart\<close>

text \<open>
  What the callback of \<open>analyzeHiddenStemSupport\<close> computes for one hidden stem, in terms
  of the two cycles: the relation is taken from the side of the hidden stem, so the
  score \<open>+2\<close> of \<open>beGenerated\<close> goes to a hidden stem whose element the day master produces,
  and the score \<open>-1\<close> of \<open>generate\<close> to one whose element produces the day master.
\<close>

lemma hiddenFinalScore_by_cycle:
  "hiddenFinalScore dayElement hiddenStem index =
     dmul (if getElementFromStem hiddenStem = dayElement then 3
      else if generateCycle dayElement = getElementFromStem hiddenStem then 2
      else if generateCycle (getElementFromStem hiddenStem) = dayElement then - 1
      else if overcomeCycle (getElementFromStem hiddenStem) = dayElement then - 2
      else - 3) (positionMultiplier index)"
  by (cases "getElementFromStem hiddenStem"; cases dayElement)
    (simp_all add: hiddenFinalScore_def Let_def getElementRelation_def hiddenScore_def)

lemma stemScore_by_cycle:
  "stemScore (getElementRelation stemElement dayElement) =
     (if stemElement = dayElement then 2
      else if generateCycle dayElement = stemElement then 3 / 2
      else if generateCycle stemElement = dayElement then - (1 / 2)
      else if overcomeCycle stemElement = dayElement then - 1
      else - (3 / 2))"
  by (cases stemElement; cases dayElement)
    (simp_all add: getElementRelation_def stemScore_def)

text \<open>
  The two loops of \<open>analyzeHiddenStemSupport\<close> add up, in order and with the rounding of
  each addition, one contribution for each hidden stem of each of the four branches, and
  record those of absolute value above one half.
\<close>

lemma hiddenStemsForEach_score:
  "fst (hiddenStemsForEach dayElement br hs i acc) =
     foldl dadd (fst acc) (map (\<lambda>(j, h). hiddenFinalScore dayElement h j) (enumerate i hs))"
  by (induction hs arbitrary: i acc) (simp_all add: hiddenStep_def Let_def)

lemma hiddenStemsForEach_details:
  "map hd_score (snd (hiddenStemsForEach dayElement br hs i acc)) =
     map hd_score (snd acc)
       @ filter (\<lambda>x. \<bar>x\<bar> > 1 / 2)
           (map (\<lambda>(j, h). hiddenFinalScore dayElement h j) (enumerate i hs))"
  by (induction hs arbitrary: i acc) (simp_all add: hiddenStep_def Let_def)

lemma hiddenPillarsForEach_score:
  "fst (hiddenPillarsForEach bd dayElement es acc) =
     foldl (\<lambda>s (pos, st, br).
         foldl dadd s (map (\<lambda>(j, h). hiddenFinalScore dayElement h j)
           (enumerate 0 (getBranchHiddenStems bd br))))
       (fst acc) es"
proof (induction es arbitrary: acc)
  case Nil
  show ?case by simp
next
  case (Cons e es)
  obtain pos st br where e: "e = (pos, st, br)" by (cases e) auto
  show ?case unfolding e by (simp add: Cons.IH hiddenStemsForEach_score)
qed

lemma analyzeHiddenStemSupport_total:
  "sup_total_score (analyzeHiddenStemSupport bd dayElement ps) =
     foldl (\<lambda>s (pos, st, br).
         foldl dadd s (map (\<lambda>(j, h). hiddenFinalScore dayElement h j)
           (enumerate 0 (getBranchHiddenStems bd br))))
       0 (entries ps)"
  by (simp add: analyzeHiddenStemSupport_def Let_def hiddenPillarsForEach_score)

text \<open>
  The loop of \<open>analyzeStemSupport\<close> adds up one score for each pillar other than the day
  pillar.
\<close>

lemma stemPillarsForEach_score:
  "fst (stemPillarsForEach dayElement es acc) =
     foldl dadd (fst acc)
       (map (\<lambda>(pos, st, br). stemScore (getElementRelation (getElementFromStem st) dayElement))
          (filter (\<lambda>(pos, st, br). pos \<noteq> DayPos) es))"
proof (induction es arbitrary: acc)
  case Nil
  show ?case by simp
next
  case (Cons e es)
  obtain pos st br where e: "e = (pos, st, br)" by (cases e) auto
  show ?case unfolding e by (simp add: Cons.IH Let_def)
qed

lemma analyzeStemSupport_total:
  "sup_total_score (analyzeStemSupport dayElement ps) =
     dadd (dadd (dadd 0
       (stemScore (getElementRelation (getElementFromStem (stem (year ps))) dayElement)))
       (stemScore (getElementRelation (getElementFromStem (stem (month ps))) dayElement)))
       (stemScore (getElementRelation (getElementFromStem (stem (hour ps))) dayElement))"
  by (simp add: analyzeStemSupport_def Let_def stemPillarsForEach_score entries_def)

text \<open>
  Rounding at work: a residual hidden stem of the day master's own element contributes
  \<open>3 * 0.3\<close>, which is \<open>0.8999999999999999\<close>, and on the chart Yi/Chou, Wu/Zi, Geng/Zi,
  Ren/Wu the total of the month score 1, the hidden-stem score and the stem score is
  \<open>2.9999999999999996\<close>, below the bound 3 of the level Strong.
\<close>

lemma hiddenFinalScore_rounded:
  "hiddenFinalScore Metal Xin 2 = 2026619832316723 / 2251799813685248
   \<and> hiddenFinalScore Metal Xin 1 = 2026619832316723 / 1125899906842624"
  by code_simp

lemma analyzeHiddenStemSupport_rounded:
  "sup_total_score (analyzeHiddenStemSupport sampleBaseData Metal chartYiChou)
     = 5629499534213119 / 2251799813685248"
  by code_simp

lemma analyzeStemSupport_halves:
  "sup_total_score (analyzeStemSupport Metal chartYiChou) = - (1 / 2)"
  by code_simp

lemma dadd_rounded:
  "dadd (dadd 1 (5629499534213119 / 2251799813685248)) (- (1 / 2))
     = 6755399441055743 / 2251799813685248"
  by code_simp

lemma analyzeElementStrength_rounded:
  "total_score (overall_strength (analyzeElementStrength sampleBaseData Geng Zi chartYiChou))
     = 6755399441055743 / 2251799813685248
   \<and> es_strength_level (analyzeElementStrength sampleBaseData Geng Zi chartYiChou) = Balanced"
  by (simp add: analyzeElementStrength_def Let_def calculateOverallStrength_def
        getStrengthLevel_def getElementFromStem_def getMonthStrength_def seasonStrength_def
        monthScoreOf_def monthScoreTable_def analyzeHiddenStemSupport_rounded
        analyzeStemSupport_halves dadd_rounded)

text \<open>
  Claim C1.  The hidden-stem support score is the sum, over the branches of the four
  pillars and the hidden stems in them, of a base score given by the relation of the
  hidden stem's element to the day master's element (same element \<open>+3\<close>, the hidden
  stem's element produces the day master's \<open>+2\<close>, the day master's element produces the
  hidden stem's \<open>-1\<close>, the hidden stem's element destroys the day master's \<open>-3\<close>), times
  the weight 1.0, 0.6 or 0.3 of the position, with every contribution of absolute value
  above 0.5 itemized.

  The code on the chart Ren/Zi, Ren/Zi, Jia/Zi, Jia/Zi with the day-master element Wood:
  each branch Zi hides the single stem Gui, whose element Water produces Wood, and each
  of the four contributions is \<open>-1\<close>, not \<open>+2\<close>; the total is \<open>-4\<close>.  Likewise a main hidden
  stem Bing (Fire, which Wood produces) scores \<open>+2\<close>, Geng (Metal, which destroys Wood)
  \<open>-2\<close>, and Wu (Earth, which Wood destroys) \<open>-3\<close>.
\<close>

theorem analyzeHiddenStemSupport_producing_hidden_stem:
  "getBranchHiddenStems sampleBaseData Zi = [Gui]
   \<and> generateCycle (getElementFromStem Gui) = Wood
   \<and> hiddenFinalScore Wood Gui 0 = - 1
   \<and> analyzeHiddenStemSupport sampleBaseData Wood chartRenZi =
       \<lparr>sup_total_score = - 4,
        sup_details =
          [\<lparr>hd_branch = Zi, hd_hidden_stem = Gui, hd_relation = generate, hd_score = - 1\<rparr>,
           \<lparr>hd_branch = Zi, hd_hidden_stem = Gui, hd_relation = generate, hd_score = - 1\<rparr>,
           \<lparr>hd_branch = Zi, hd_hidden_stem = Gui, hd_relation = generate, hd_score = - 1\<rparr>,
           \<lparr>hd_branch = Zi, hd_hidden_stem = Gui, hd_relation = generate, hd_score = - 1\<rparr>],
        sup_level = HenRuo\<rparr>
   \<and> hiddenFinalScore Wood Bing 0 = 2
   \<and> hiddenFinalScore Wood Geng 0 = - 2
   \<and> hiddenFinalScore Wood WuS 0 = - 3"
  by code_simp

text \<open>
  Claim C4.  The visible-stem support score considers the stems of the three pillars
  other than the day pillar, without positional weight, and gives each a base score by
  its relation to the day master: same element \<open>+2\<close>, the stem's element produces the day
  master's \<open>+1.5\<close>, the stem's element is produced by the day master's \<open>-0.5\<close>, the stem's
  element destroys the day master's \<open>-1\<close>, the stem's element is destroyed by the day
  master's \<open>-1.5\<close>; the total is the sum and each nonzero contribution is itemized.

  The code on the chart Ren/Zi, Ren/Zi, Jia/Zi, Jia/Zi with the day-master element Wood:
  the year stem and the month stem are Ren, whose element Water produces Wood, and each
  scores \<open>-0.5\<close>, not \<open>+1.5\<close>; with the \<open>+2\<close> of the hour stem Jia the total is \<open>1\<close>.  A stem
  Bing (Fire, which Wood produces) scores \<open>+1.5\<close>.
\<close>

theorem analyzeStemSupport_producing_stem:
  "stem (year chartRenZi) = Ren
   \<and> generateCycle (getElementFromStem Ren) = Wood
   \<and> stemScore (getElementRelation (getElementFromStem Ren) Wood) = - (1 / 2)
   \<and> analyzeStemSupport Wood chartRenZi =
       \<lparr>sup_total_score = 1,
        sup_details =
          [\<lparr>sd_position = YearPos, sd_stem = Ren, sd_relation = generate, sd_score = - (1 / 2)\<rparr>,
           \<lparr>sd_position = MonthPos, sd_stem = Ren, sd_relation = generate, sd_score = - (1 / 2)\<rparr>,
           \<lparr>sd_position = HourPos, sd_stem = Jia, sd_relation = same, sd_score = 2\<rparr>],
        sup_level = Zhong\<rparr>
   \<and> stemScore (getElementRelation (getElementFromStem Bing) Wood) = 3 / 2"
  by code_simp

section \<open>The day after, and the Zi hour\<close>

lemma div_pred_dvd:
  fixes y k :: int
  assumes k: "0 < k" and d: "y mod k = 0"
  shows "y div k = (y - 1) div k + 1"
proof -
  have "y = k * (y div k)" using d by (simp add: mod_eq_0_iff_dvd)
  then have "y - 1 = k * (y div k - 1) + (k - 1)"
    by (simp add: algebra_simps)
  moreover have "0 \<le> k - 1" "k - 1 < k" using k by simp_all
  ultimately have "(y - 1) div k = y div k - 1"
    by (rule int_div_pos_eq)
  then show ?thesis by simp
qed

lemma div_pred_ndvd:
  fixes y k :: int
  assumes k: "0 < k" and d: "y mod k \<noteq> 0"
  shows "y div k = (y - 1) div k"
proof -
  have m: "0 < y mod k" using d k pos_mod_sign [of k y] by linarith
  have e: "y - 1 = k * (y div k) + (y mod k - 1)"
    by simp
  have lo: "0 \<le> y mod k - 1" using m by linarith
  have hi: "y mod k - 1 < k" using pos_mod_bound [of k y] k by linarith
  have "(y - 1) div k = y div k"
    by (rule int_div_pos_eq [OF e lo hi])
  then show ?thesis by simp
qed

lemma mod_100_4: "(y::int) mod 100 = 0 \<Longrightarrow> y mod 4 = 0"
proof -
  assume "y mod 100 = 0"
  then have "100 dvd y" by (simp add: mod_eq_0_iff_dvd)
  moreover have "(4::int) dvd 100" by simp
  ultimately have "4 dvd y" by (rule dvd_trans [rotated])
  then show ?thesis by (simp add: mod_eq_0_iff_dvd)
qed

lemma mod_400_100: "(y::int) mod 400 = 0 \<Longrightarrow> y mod 100 = 0"
proof -
  assume "y mod 400 = 0"
  then have "400 dvd y" by (simp add: mod_eq_0_iff_dvd)
  moreover have "(100::int) dvd 400" by simp
  ultimately have "100 dvd y" by (rule dvd_trans [rotated])
  then show ?thesis by (simp add: mod_eq_0_iff_dvd)
qed

lemma leapYearsBefore_next:
  "leapYearsBefore (y + 1) = leapYearsBefore y + (if isLeapYear y then 1 else 0)"
proof -
  have L: "leapYearsBefore (y + 1) = y div 4 - y div 100 + y div 400"
    by (simp add: leapYearsBefore_def)
  have R: "leapYearsBefore y = (y - 1) div 4 - (y - 1) div 100 + (y - 1) div 400"
    by (simp add: leapYearsBefore_def)
  show ?thesis
  proof (cases "y mod 400 = 0")
    case True
    then have h: "y mod 100 = 0" by (rule mod_400_100)
    then have f: "y mod 4 = 0" by (rule mod_100_4)
    have "isLeapYear y" using True by (simp add: isLeapYear_def)
    moreover have "y div 4 = (y - 1) div 4 + 1" by (rule div_pred_dvd [OF _ f]) simp
    moreover have "y div 100 = (y - 1) div 100 + 1" by (rule div_pred_dvd [OF _ h]) simp
    moreover have "y div 400 = (y - 1) div 400 + 1" by (rule div_pred_dvd [OF _ True]) simp
    ultimately show ?thesis using L R by simp
  next
    case n400: False
    have q: "y div 400 = (y - 1) div 400" by (rule div_pred_ndvd [OF _ n400]) simp
    show ?thesis
    proof (cases "y mod 100 = 0")
      case True
      then have f: "y mod 4 = 0" by (rule mod_100_4)
      have "\<not> isLeapYear y" using True n400 by (simp add: isLeapYear_def)
      moreover have "y div 4 = (y - 1) div 4 + 1" by (rule div_pred_dvd [OF _ f]) simp
      moreover have "y div 100 = (y - 1) div 100 + 1" by (rule div_pred_dvd [OF _ True]) simp
      ultimately show ?thesis using L R q by simp
    next
      case n100: False
      have c: "y div 100 = (y - 1) div 100" by (rule div_pred_ndvd [OF _ n100]) simp
      show ?thesis
      proof (cases "y mod 4 = 0")
        case True
        have "isLeapYear y" using True n100 by (simp add: isLeapYear_def)
        moreover have "y div 4 = (y - 1) div 4 + 1" by (rule div_pred_dvd [OF _ True]) simp
        ultimately show ?thesis using L R q c by simp
      next
        case False
        have "\<not> isLeapYear y" using False n400 by (simp add: isLeapYear_def)
        moreover have "y div 4 = (y - 1) div 4" by (rule div_pred_ndvd [OF _ False]) simp
        ultimately show ?thesis using L R q c by simp
      qed
    qed
  qed
qed


lemma daysBeforeMonth_next:
  assumes "1 \<le> m"
  shows "daysBeforeMonth y (m + 1) = daysBeforeMonth y m + daysInMonth y m"
proof -
  have "[1..m] = [1..m - 1] @ [m]" using assms by (rule upto_rec2)
  then show ?thesis by (simp add: daysBeforeMonth_def)
qed

lemma daysBeforeMonth_first: "daysBeforeMonth y 1 = 0"
  by (simp add: daysBeforeMonth_def)

lemma upto_1_11: "[1..11] = [1, 2, 3, 4, 5, 6, 7, 8, 9, 10, 11::int]"
  by (simp add: upto.simps [of 1 11])

lemma daysBeforeMonth_last:
  "daysBeforeMonth y 12 + 31 = 365 + (if isLeapYear y then 1 else 0)"
  by (simp add: daysBeforeMonth_def daysInMonth_def upto_1_11)


lemma daysInMonth_lower: "28 \<le> daysInMonth y m"
  by (simp add: daysInMonth_def)

text \<open>
  For a valid date outside the two-digit window of the constructor, \<open>newDate\<close> applied
  to the day plus one is the next calendar day.
\<close>

lemma newDate_next_day:
  assumes v: "validDate (y, m, d)" and yr: "99 < y"
  shows "validDate (newDate y m (d + 1))
     \<and> dayNumber (newDate y m (d + 1)) = dayNumber (y, m, d) + 1"
proof -
  have j: "jsYear y = y" using yr by (simp add: jsYear_def)
  have m: "1 \<le> m" "m \<le> 12" and d: "1 \<le> d" "d \<le> daysInMonth y m"
    using v by (simp_all add: validDate_def)
  show ?thesis
  proof (cases "d + 1 \<le> daysInMonth y m")
    case True
    then have "newDate y m (d + 1) = (y, m, d + 1)"
      by (simp add: newDate_def j)
    then show ?thesis using m d True by (simp add: validDate_def dayNumber_def)
  next
    case False
    then have e: "d = daysInMonth y m" using d by linarith
    show ?thesis
    proof (cases "m = 12")
      case True
      have d31: "d = 31" using e True by (simp add: daysInMonth_def)
      have n: "newDate y m (d + 1) = (y + 1, 1, 1)"
        using False e True by (simp add: newDate_def j)
      have "dayNumber (y + 1, 1, 1) = dayNumber (y, 12, 31) + 1"
        using leapYearsBefore_next [of y] daysBeforeMonth_last [of y]
        by (simp add: dayNumber_def daysBeforeMonth_first)
      moreover have "validDate (y + 1, 1, 1)"
        by (simp add: validDate_def daysInMonth_def)
      ultimately show ?thesis using n True d31 by simp
    next
      case nd: False
      then have m11: "m \<le> 11" using m by linarith
      have n: "newDate y m (d + 1) = (y, m + 1, 1)"
        using False e nd by (simp add: newDate_def j)
      have "dayNumber (y, m + 1, 1) = dayNumber (y, m, d) + 1"
        using daysBeforeMonth_next [OF m(1), of y] e by (simp add: dayNumber_def)
      moreover have "validDate (y, m + 1, 1)"
        using m m11 daysInMonth_lower [of y "m + 1"] by (simp add: validDate_def)
      ultimately show ?thesis using n by simp
    qed
  qed
qed

lemma monthStemBase_defined:
  assumes "0 \<le> i" and "i < 10"
  shows "\<exists>b. map_of monthStemBase i = Some b"
proof -
  have "i = 0 \<or> i = 1 \<or> i = 2 \<or> i = 3 \<or> i = 4 \<or> i = 5 \<or> i = 6 \<or> i = 7 \<or> i = 8 \<or> i = 9"
    using assms by arith
  then show ?thesis by (auto simp add: monthStemBase_def)
qed

lemma hourStemBase_defined:
  assumes "0 \<le> i" and "i < 10"
  shows "\<exists>b. map_of hourStemBase i = Some b \<and> 0 \<le> b"
proof -
  have "i = 0 \<or> i = 1 \<or> i = 2 \<or> i = 3 \<or> i = 4 \<or> i = 5 \<or> i = 6 \<or> i = 7 \<or> i = 8 \<or> i = 9"
    using assms by arith
  then show ?thesis by (auto simp add: hourStemBase_def)
qed

lemma calculateMonthPillar_defined:
  "\<exists>mp. calculateMonthPillar this y m d (stemIndex (calculateYearPillar this y m d h mi)) h' mi'
     = Some mp"
proof -
  let ?i = "stemIndex (calculateYearPillar this y m d h mi)"
  have "0 \<le> ?i" "?i < 10" by (simp_all add: calculateYearPillar_stemIndex)
  then obtain b where "map_of monthStemBase ?i = Some b"
    using monthStemBase_defined by blast
  then show ?thesis by (simp add: calculateMonthPillar_def Let_def)
qed

text \<open>
  The hour pillar at hour 23: the stem index that enters the rat-start table is the one
  of the day pillar looked up for \<open>newDate y m (d + 1)\<close>.
\<close>

lemma calculateHourPillar_late:
  assumes n: "newDate y m (d + 1) = (ny, nm, nd)"
    and b: "map_of hourStemBase (stemIndex (getAccurateDayPillar (wanNianLi this) ny nm nd)) = Some base"
    and p: "0 \<le> base"
  shows "\<exists>hp. calculateHourPillar this 23 mi dayStemIndex y m d = Some hp
     \<and> stem hp = getStemByIndex (baseData this) ((base + 0) mod 10)
     \<and> branch hp = getBranchByIndex (baseData this) 0
     \<and> is_late_zishi hp \<and> \<not> is_early_zishi hp \<and> zishi_type hp = Some LateZiShi"
  using n b p
  by (simp add: calculateHourPillar_def Let_def calculateDayPillar_def jsRem_nonneg)

text \<open>The hour pillar at hour 0: the stem index passed in is used as it is.\<close>

lemma calculateHourPillar_early:
  assumes b: "map_of hourStemBase dayStemIndex = Some base"
    and p: "0 \<le> base"
  shows "\<exists>hp. calculateHourPillar this 0 mi dayStemIndex y m d = Some hp
     \<and> stem hp = getStemByIndex (baseData this) ((base + 0) mod 10)
     \<and> branch hp = getBranchByIndex (baseData this) 0
     \<and> \<not> is_late_zishi hp \<and> is_early_zishi hp \<and> zishi_type hp = Some EarlyZiShi"
  using b p
  by (simp add: calculateHourPillar_def Let_def jsRem_nonneg)

lemma calculatePreciseBazi_defined:
  assumes dec: "decodeBirthDate utcOffset D = (y, m, d)"
    and mp: "calculateMonthPillar this y m d (stemIndex (calculateYearPillar this y m d h mi)) h mi
      = Some mp"
    and hp: "calculateHourPillar this h mi (stemIndex (calculateDayPillar this y m d)) y m d
      = Some hp"
  shows "\<exists>c. calculatePreciseBazi this utcOffset D (Some (h, mi)) = Some c
     \<and> c_stem (day_pillar c) = stem (calculateDayPillar this y m d)
     \<and> c_branch (day_pillar c) = branch (calculateDayPillar this y m d)
     \<and> day_master c = stem (calculateDayPillar this y m d)
     \<and> c_stem (hour_pillar c) = stem hp
     \<and> c_branch (hour_pillar c) = branch hp
     \<and> c_is_late_zishi (hour_pillar c) = is_late_zishi hp
     \<and> c_is_early_zishi (hour_pillar c) = is_early_zishi hp"
  by (simp add: calculatePreciseBazi_def Let_def dec mp hp)

text \<open>
  The Zi hour relative to the decoded date.  When the getters give the valid date
  \<open>(y, m, d)\<close>, after the year 99, and the day-pillar lookup returns stem indices from 0
  to 9: at hour 23 the day pillar of the chart is the lookup for \<open>(y, m, d)\<close> and the hour
  stem is derived (entry of the rat-start table plus the hour-branch index 0, modulo 10)
  from the stem index of a second lookup, for the day after \<open>(y, m, d)\<close>; at hour 0 both
  use \<open>(y, m, d)\<close>.
\<close>

lemma calculatePreciseBazi_zi_hour_decoded:
  fixes this :: BaziAnalyzer
  defines "lookup \<equiv> getAccurateDayPillar (wanNianLi this)"
  assumes dec: "decodeBirthDate utcOffset D = (y, m, d)"
    and v: "validDate (y, m, d)" and yr: "99 < y"
    and rng: "\<And>y' m' d'. 0 \<le> stemIndex (lookup y' m' d') \<and> stemIndex (lookup y' m' d') < 10"
  shows "(\<exists>c ny nm nd base.
            calculatePreciseBazi this utcOffset D (Some (23, mi)) = Some c
          \<and> newDate y m (d + 1) = (ny, nm, nd)
          \<and> validDate (ny, nm, nd)
          \<and> dayNumber (ny, nm, nd) = dayNumber (y, m, d) + 1
          \<and> c_stem (day_pillar c) = stem (lookup y m d)
          \<and> c_branch (day_pillar c) = branch (lookup y m d)
          \<and> day_master c = stem (lookup y m d)
          \<and> map_of hourStemBase (stemIndex (lookup ny nm nd)) = Some base
          \<and> c_stem (hour_pillar c) = getStemByIndex (baseData this) ((base + 0) mod 10)
          \<and> c_branch (hour_pillar c) = getBranchByIndex (baseData this) 0
          \<and> c_is_late_zishi (hour_pillar c))
   \<and> (\<exists>c base.
            calculatePreciseBazi this utcOffset D (Some (0, mi)) = Some c
          \<and> c_stem (day_pillar c) = stem (lookup y m d)
          \<and> c_branch (day_pillar c) = branch (lookup y m d)
          \<and> day_master c = stem (lookup y m d)
          \<and> map_of hourStemBase (stemIndex (lookup y m d)) = Some base
          \<and> c_stem (hour_pillar c) = getStemByIndex (baseData this) ((base + 0) mod 10)
          \<and> c_branch (hour_pillar c) = getBranchByIndex (baseData this) 0
          \<and> c_is_early_zishi (hour_pillar c))"
proof
  obtain ny nm nd where n: "newDate y m (d + 1) = (ny, nm, nd)"
    by (cases "newDate y m (d + 1)") auto
  have nv: "validDate (ny, nm, nd)" and nn: "dayNumber (ny, nm, nd) = dayNumber (y, m, d) + 1"
    using newDate_next_day [OF v yr] n by simp_all
  obtain base where b: "map_of hourStemBase (stemIndex (lookup ny nm nd)) = Some base"
    and p: "0 \<le> base"
    using hourStemBase_defined rng by blast
  obtain mp where mp:
    "calculateMonthPillar this y m d (stemIndex (calculateYearPillar this y m d 23 mi)) 23 mi
       = Some mp"
    using calculateMonthPillar_defined by blast
  obtain hp where hp:
    "calculateHourPillar this 23 mi (stemIndex (calculateDayPillar this y m d)) y m d = Some hp"
    and hs: "stem hp = getStemByIndex (baseData this) ((base + 0) mod 10)"
    and hb: "branch hp = getBranchByIndex (baseData this) 0"
    and hl: "is_late_zishi hp"
    using calculateHourPillar_late [OF n b [unfolded lookup_def] p] by blast
  obtain c where c: "calculatePreciseBazi this utcOffset D (Some (23, mi)) = Some c"
    and c1: "c_stem (day_pillar c) = stem (calculateDayPillar this y m d)"
    and c2: "c_branch (day_pillar c) = branch (calculateDayPillar this y m d)"
    and c3: "day_master c = stem (calculateDayPillar this y m d)"
    and c4: "c_stem (hour_pillar c) = stem hp"
    and c5: "c_branch (hour_pillar c) = branch hp"
    and c6: "c_is_late_zishi (hour_pillar c) = is_late_zishi hp"
    using calculatePreciseBazi_defined [OF dec mp hp] by blast
  have l: "calculateDayPillar this y m d = lookup y m d"
    by (simp add: calculateDayPillar_def lookup_def)
  show "\<exists>c ny nm nd base.
            calculatePreciseBazi this utcOffset D (Some (23, mi)) = Some c
          \<and> newDate y m (d + 1) = (ny, nm, nd)
          \<and> validDate (ny, nm, nd)
          \<and> dayNumber (ny, nm, nd) = dayNumber (y, m, d) + 1
          \<and> c_stem (day_pillar c) = stem (lookup y m d)
          \<and> c_branch (day_pillar c) = branch (lookup y m d)
          \<and> day_master c = stem (lookup y m d)
          \<and> map_of hourStemBase (stemIndex (lookup ny nm nd)) = Some base
          \<and> c_stem (hour_pillar c) = getStemByIndex (baseData this) ((base + 0) mod 10)
          \<and> c_branch (hour_pillar c) = getBranchByIndex (baseData this) 0
          \<and> c_is_late_zishi (hour_pillar c)"
    using c n nv nn c1 c2 c3 b c4 c5 c6 hs hb hl unfolding l
    by (intro exI [of _ c] exI [of _ ny] exI [of _ nm] exI [of _ nd] exI [of _ base]) simp
next
  obtain base where b: "map_of hourStemBase (stemIndex (lookup y m d)) = Some base"
    and p: "0 \<le> base"
    using hourStemBase_defined rng by blast
  have l: "calculateDayPillar this y m d = lookup y m d"
    by (simp add: calculateDayPillar_def lookup_def)
  obtain mp where mp:
    "calculateMonthPillar this y m d (stemIndex (calculateYearPillar this y m d 0 mi)) 0 mi
       = Some mp"
    using calculateMonthPillar_defined by blast
  obtain hp where hp:
    "calculateHourPillar this 0 mi (stemIndex (calculateDayPillar this y m d)) y m d = Some hp"
    and hs: "stem hp = getStemByIndex (baseData this) ((base + 0) mod 10)"
    and hb: "branch hp = getBranchByIndex (baseData this) 0"
    and he: "is_early_zishi hp"
    using calculateHourPillar_early [OF b [folded l] p] by blast
  obtain c where c: "calculatePreciseBazi this utcOffset D (Some (0, mi)) = Some c"
    and c1: "c_stem (day_pillar c) = stem (calculateDayPillar this y m d)"
    and c2: "c_branch (day_pillar c) = branch (calculateDayPillar this y m d)"
    and c3: "day_master c = stem (calculateDayPillar this y m d)"
    and c4: "c_stem (hour_pillar c) = stem hp"
    and c5: "c_branch (hour_pillar c) = branch hp"
    and c7: "c_is_early_zishi (hour_pillar c) = is_early_zishi hp"
    using calculatePreciseBazi_defined [OF dec mp hp] by blast
  show "\<exists>c base.
            calculatePreciseBazi this utcOffset D (Some (0, mi)) = Some c
          \<and> c_stem (day_pillar c) = stem (lookup y m d)
          \<and> c_branch (day_pillar c) = branch (lookup y m d)
          \<and> day_master c = stem (lookup y m d)
          \<and> map_of hourStemBase (stemIndex (lookup y m d)) = Some base
          \<and> c_stem (hour_pillar c) = getStemByIndex (baseData this) ((base + 0) mod 10)
          \<and> c_branch (hour_pillar c) = getBranchByIndex (baseData this) 0
          \<and> c_is_early_zishi (hour_pillar c)"
    using c c1 c2 c3 b c4 c5 c7 hs hb he unfolding l
    by (intro exI [of _ c] exI [of _ base]) simp
qed

text \<open>
  At or east of UTC the decoded date is the written birth date, and the chart at the Zi
  hour is as above with the written date: the day pillar is its lookup, and at hour 23
  the second lookup is for the next calendar day.
\<close>

lemma calculatePreciseBazi_zi_hour_east_of_utc:
  fixes this :: BaziAnalyzer
  defines "lookup \<equiv> getAccurateDayPillar (wanNianLi this)"
  assumes e: "0 \<le> utcOffset"
    and v: "validDate (y, m, d)" and yr: "99 < y"
    and rng: "\<And>y' m' d'. 0 \<le> stemIndex (lookup y' m' d') \<and> stemIndex (lookup y' m' d') < 10"
  shows "(\<exists>c ny nm nd base.
            calculatePreciseBazi this utcOffset (y, m, d) (Some (23, mi)) = Some c
          \<and> newDate y m (d + 1) = (ny, nm, nd)
          \<and> validDate (ny, nm, nd)
          \<and> dayNumber (ny, nm, nd) = dayNumber (y, m, d) + 1
          \<and> c_stem (day_pillar c) = stem (lookup y m d)
          \<and> c_branch (day_pillar c) = branch (lookup y m d)
          \<and> day_master c = stem (lookup y m d)
          \<and> map_of hourStemBase (stemIndex (lookup ny nm nd)) = Some base
          \<and> c_stem (hour_pillar c) = getStemByIndex (baseData this) ((base + 0) mod 10)
          \<and> c_branch (hour_pillar c) = getBranchByIndex (baseData this) 0
          \<and> c_is_late_zishi (hour_pillar c))
   \<and> (\<exists>c base.
            calculatePreciseBazi this utcOffset (y, m, d) (Some (0, mi)) = Some c
          \<and> c_stem (day_pillar c) = stem (lookup y m d)
          \<and> c_branch (day_pillar c) = branch (lookup y m d)
          \<and> day_master c = stem (lookup y m d)
          \<and> map_of hourStemBase (stemIndex (lookup y m d)) = Some base
          \<and> c_stem (hour_pillar c) = getStemByIndex (baseData this) ((base + 0) mod 10)
          \<and> c_branch (hour_pillar c) = getBranchByIndex (baseData this) 0
          \<and> c_is_early_zishi (hour_pillar c))"
proof -
  have dec: "decodeBirthDate utcOffset (y, m, d) = (y, m, d)"
    using e by (simp add: decodeBirthDate_def)
  show ?thesis
    unfolding lookup_def
    by (rule calculatePreciseBazi_zi_hour_decoded [OF dec v yr rng [unfolded lookup_def]])
qed

text \<open>
  West of UTC the decoded date is the day before the written birth date, and the day
  after the decoded date is the written date itself.
\<close>

lemma prevDay_next_day:
  assumes v: "validDate (y, m, d)" and yr: "100 < y"
  shows "\<exists>py pm pd. prevDay (y, m, d) = (py, pm, pd) \<and> validDate (py, pm, pd) \<and> 99 < py
     \<and> newDate py pm (pd + 1) = (y, m, d)"
proof -
  have m: "1 \<le> m" "m \<le> 12" and d: "1 \<le> d" "d \<le> daysInMonth y m"
    using v by (simp_all add: validDate_def)
  have j: "jsYear y = y" "jsYear (y - 1) = y - 1" using yr by (simp_all add: jsYear_def)
  show ?thesis
  proof (cases "1 < d")
    case True
    then have "prevDay (y, m, d) = (y, m, d - 1)" by (simp add: prevDay_def)
    moreover have "validDate (y, m, d - 1)" using True m d by (simp add: validDate_def)
    moreover have "newDate y m (d - 1 + 1) = (y, m, d)" using d by (simp add: newDate_def j)
    ultimately show ?thesis using yr by simp
  next
    case False
    then have d1: "d = 1" using d by linarith
    show ?thesis
    proof (cases "m = 1")
      case True
      have "prevDay (y, m, d) = (y - 1, 12, 31)" using d1 True by (simp add: prevDay_def)
      moreover have "validDate (y - 1, 12, 31)" by (simp add: validDate_def daysInMonth_def)
      moreover have "newDate (y - 1) 12 (31 + 1) = (y, m, d)"
        using d1 True by (simp add: newDate_def j daysInMonth_def)
      ultimately show ?thesis using yr by simp
    next
      case nm: False
      then have m2: "2 \<le> m" using m by linarith
      have "prevDay (y, m, d) = (y, m - 1, daysInMonth y (m - 1))"
        using d1 nm by (simp add: prevDay_def)
      moreover have "validDate (y, m - 1, daysInMonth y (m - 1))"
        using m m2 daysInMonth_lower [of y "m - 1"] by (simp add: validDate_def)
      moreover have "newDate y (m - 1) (daysInMonth y (m - 1) + 1) = (y, m, d)"
        using d1 m m2 by (simp add: newDate_def j)
      ultimately show ?thesis using yr by simp
    qed
  qed
qed

lemma calculatePreciseBazi_zi_hour_west_of_utc:
  fixes this :: BaziAnalyzer
  defines "lookup \<equiv> getAccurateDayPillar (wanNianLi this)"
  assumes w: "utcOffset < 0"
    and v: "validDate (y, m, d)" and yr: "100 < y"
    and rng: "\<And>y' m' d'. 0 \<le> stemIndex (lookup y' m' d') \<and> stemIndex (lookup y' m' d') < 10"
  shows "\<exists>c py pm pd base.
            calculatePreciseBazi this utcOffset (y, m, d) (Some (23, mi)) = Some c
          \<and> prevDay (y, m, d) = (py, pm, pd)
          \<and> c_stem (day_pillar c) = stem (lookup py pm pd)
          \<and> c_branch (day_pillar c) = branch (lookup py pm pd)
          \<and> map_of hourStemBase (stemIndex (lookup y m d)) = Some base
          \<and> c_stem (hour_pillar c) = getStemByIndex (baseData this) ((base + 0) mod 10)
          \<and> c_branch (hour_pillar c) = getBranchByIndex (baseData this) 0"
proof -
  obtain py pm pd where p: "prevDay (y, m, d) = (py, pm, pd)"
    and pv: "validDate (py, pm, pd)" and py: "99 < py"
    and n: "newDate py pm (pd + 1) = (y, m, d)"
    using prevDay_next_day [OF v yr] by blast
  have dec: "decodeBirthDate utcOffset (y, m, d) = (py, pm, pd)"
    using w p by (simp add: decodeBirthDate_def)
  from calculatePreciseBazi_zi_hour_decoded [OF dec pv py rng [unfolded lookup_def], of mi]
  obtain c ny nm nd base where
    "calculatePreciseBazi this utcOffset (y, m, d) (Some (23, mi)) = Some c"
    "newDate py pm (pd + 1) = (ny, nm, nd)"
    "c_stem (day_pillar c) = stem (lookup py pm pd)"
    "c_branch (day_pillar c) = branch (lookup py pm pd)"
    "map_of hourStemBase (stemIndex (lookup ny nm nd)) = Some base"
    "c_stem (hour_pillar c) = getStemByIndex (baseData this) ((base + 0) mod 10)"
    "c_branch (hour_pillar c) = getBranchByIndex (baseData this) 0"
    unfolding lookup_def by blast
  then show ?thesis using p n by auto
qed

text \<open>
  Claim C2.  For every birth date D and a birth time at hour 23 (late Zi hour), the chart
  of \<open>calculatePreciseBazi\<close> keeps the day pillar equal to the day-pillar lookup for D,
  while the stem of the hour pillar is derived (rat-start table plus hour-branch index,
  modulo 10) from the day stem of a second lookup, for the calendar day D + 1; at hour 0
  both use D.

  The code on the birth date 1984-02-29 and the birth time 23:30, in a process five
  hours west of UTC, with the sample lookup: the decoded date is the 28th; the day pillar
  of the chart is Ren/Chen, the lookup for the 28th, not Gui/Si, the lookup for the 29th;
  the hour stem is Ren, derived from the stem index 9 of the lookup for the 29th, not
  Jia, which the stem index 0 of the lookup for the first of March would give.
\<close>

theorem calculatePreciseBazi_west_of_utc:
  "(\<exists>c. calculatePreciseBazi sampleAnalyzer (- 300) (1984, 2, 29) (Some (23, 30)) = Some c
      \<and> c_stem (day_pillar c) = Ren \<and> c_branch (day_pillar c) = Chen
      \<and> c_stem (hour_pillar c) = Ren \<and> c_branch (hour_pillar c) = Zi)
   \<and> decodeBirthDate (- 300) (1984, 2, 29) = (1984, 2, 28)
   \<and> stem (getAccurateDayPillar sampleWanNianLi 1984 2 28) = Ren
   \<and> branch (getAccurateDayPillar sampleWanNianLi 1984 2 28) = Chen
   \<and> stem (getAccurateDayPillar sampleWanNianLi 1984 2 29) = Gui
   \<and> branch (getAccurateDayPillar sampleWanNianLi 1984 2 29) = Si
   \<and> stemIndex (getAccurateDayPillar sampleWanNianLi 1984 2 29) = 9
   \<and> map_of hourStemBase 9 = Some 8
   \<and> newDate 1984 2 (29 + 1) = (1984, 3, 1)
   \<and> stemIndex (getAccurateDayPillar sampleWanNianLi 1984 3 1) = 0
   \<and> map_of hourStemBase 0 = Some 0
   \<and> getStemByIndex sampleBaseData ((0 + 0) mod 10) = Jia"
proof -
  have v: "validDate (1984, 2, 29)"
    by (simp add: validDate_def daysInMonth_def isLeapYear_def)
  have yr: "(100::int) < 1984" by simp
  have w: "(- 300::int) < 0" by simp
  have r: "\<And>y' m' d'. 0 \<le> stemIndex (getAccurateDayPillar (wanNianLi sampleAnalyzer) y' m' d')
      \<and> stemIndex (getAccurateDayPillar (wanNianLi sampleAnalyzer) y' m' d') < 10"
    by (simp add: sampleAnalyzer_def sampleWanNianLi_def Let_def)
  have wn: "wanNianLi sampleAnalyzer = sampleWanNianLi"
    and bd: "baseData sampleAnalyzer = sampleBaseData"
    by (simp_all add: sampleAnalyzer_def)
  have pd: "prevDay (1984, 2, 29) = (1984, 2, 28)"
    by (simp add: prevDay_def)
  have dn28: "dayNumber (1984, 2, 28) = 724334" and dn29: "dayNumber (1984, 2, 29) = 724335"
    and dn01: "dayNumber (1984, 3, 1) = 724336"
    by (simp_all add: dayNumber_def leapYearsBefore_def daysBeforeMonth_def daysInMonth_def
          isLeapYear_def upto.simps [of 1 2])
  have l28: "stem (getAccurateDayPillar sampleWanNianLi 1984 2 28) = Ren"
    "branch (getAccurateDayPillar sampleWanNianLi 1984 2 28) = Chen"
    by (simp_all add: sampleWanNianLi_def Let_def dn28 stemNames_def branchNames_def)
  have l29: "stem (getAccurateDayPillar sampleWanNianLi 1984 2 29) = Gui"
    "branch (getAccurateDayPillar sampleWanNianLi 1984 2 29) = Si"
    "stemIndex (getAccurateDayPillar sampleWanNianLi 1984 2 29) = 9"
    by (simp_all add: sampleWanNianLi_def Let_def dn29 stemNames_def branchNames_def)
  have l01: "stemIndex (getAccurateDayPillar sampleWanNianLi 1984 3 1) = 0"
    by (simp add: sampleWanNianLi_def Let_def dn01)
  have h: "map_of hourStemBase 9 = Some 8" "map_of hourStemBase 0 = Some 0"
    by (simp_all add: hourStemBase_def)
  have g: "getStemByIndex sampleBaseData ((8 + 0) mod 10) = Ren"
    "getStemByIndex sampleBaseData ((0 + 0) mod 10) = Jia"
    "getBranchByIndex sampleBaseData 0 = Zi"
    by (simp_all add: sampleBaseData_def stemNames_def branchNames_def)
  have n: "newDate 1984 2 (29 + 1) = (1984, 3, 1)"
    by (simp add: newDate_def jsYear_def daysInMonth_def isLeapYear_def)
  from calculatePreciseBazi_zi_hour_west_of_utc [OF w v yr r, of 30, unfolded wn bd pd]
  obtain c base where c: "calculatePreciseBazi sampleAnalyzer (- 300) (1984, 2, 29) (Some (23, 30)) = Some c"
    and c1: "c_stem (day_pillar c) = stem (getAccurateDayPillar sampleWanNianLi 1984 2 28)"
    and c2: "c_branch (day_pillar c) = branch (getAccurateDayPillar sampleWanNianLi 1984 2 28)"
    and b: "map_of hourStemBase (stemIndex (getAccurateDayPillar sampleWanNianLi 1984 2 29)) = Some base"
    and c3: "c_stem (hour_pillar c) = getStemByIndex sampleBaseData ((base + 0) mod 10)"
    and c4: "c_branch (hour_pillar c) = getBranchByIndex sampleBaseData 0"
    by auto
  have "base = 8" using b h(1) l29(3) by simp
  then have "c_stem (hour_pillar c) = Ren" using c3 g(1) by simp
  then have 1: "\<exists>c. calculatePreciseBazi sampleAnalyzer (- 300) (1984, 2, 29) (Some (23, 30)) = Some c
      \<and> c_stem (day_pillar c) = Ren \<and> c_branch (day_pillar c) = Chen
      \<and> c_stem (hour_pillar c) = Ren \<and> c_branch (hour_pillar c) = Zi"
    using c c1 c2 c4 l28 g(3) by (intro exI [of _ c]) simp
  have 2: "decodeBirthDate (- 300) (1984, 2, 29) = (1984, 2, 28)"
    using pd by (simp add: decodeBirthDate_def)
  show ?thesis using 1 2 l28 l29 h n l01 g(2) by (intro conjI)
qed

end
